theory Spec2Isabelle
  imports Complex_Main
begin

section \<open>Python and numpy values used by fitpack2.py\<close>

text \<open>
  Array elements are finite double precision numbers; they are modelled as reals, on
  which the comparisons of the source are exact. Integers are Python's unbounded ints.
  An exception is a value: every method returns \<open>exn + result\<close> next to the object
  and the world it leaves behind.
\<close>

datatype exn =
    ValueError string
  | TypeError string
  | IndexError string
  | AttributeError string
  | NotImplementedError string
  | NativeError string

text \<open>\<open>str\<close> of a Python int, for the \<open>'%s' % ier\<close> formats.\<close>

fun digits :: "nat \<Rightarrow> string" where
  "digits n = (if n < 10 then [''0123456789'' ! n]
               else digits (n div 10) @ [''0123456789'' ! (n mod 10)])"

declare digits.simps [simp del]

definition str_int :: "int \<Rightarrow> string" where
  "str_int i = (if i < 0 then CHR ''-'' # digits (nat (- i)) else digits (nat i))"

text \<open>Python slicing \<open>xs[lo:hi]\<close> with step 1: a negative index counts from the end,
  and both ends are clipped to the sequence.\<close>

definition py_index :: "nat \<Rightarrow> int \<Rightarrow> nat" where
  "py_index len i = (if i < 0 then nat (int len + i) else min len (nat i))"

definition py_slice :: "'a list \<Rightarrow> int \<Rightarrow> int \<Rightarrow> 'a list" where
  "py_slice xs lo hi =
     (let a = py_index (length xs) lo; b = py_index (length xs) hi
      in take (b - a) (drop a xs))"

text \<open>\<open>xs[:hi]\<close>.\<close>

definition py_upto :: "'a list \<Rightarrow> int \<Rightarrow> 'a list" where
  "py_upto xs hi = py_slice xs 0 hi"

text \<open>An ndarray is its shape and its elements in row-major order; \<open>size\<close> is the
  product of the shape.\<close>

record ndarray =
  shape :: "nat list"
  elems :: "real list"

definition nd_size :: "ndarray \<Rightarrow> nat" where
  "nd_size a = prod_list (shape a)"


text \<open>\<open>array([])\<close>, \<open>np.zeros(shape)\<close> and a one-dimensional array.\<close>

definition empty_array :: ndarray where
  "empty_array = \<lparr>shape = [0], elems = []\<rparr>"

definition np_zeros :: "nat list \<Rightarrow> ndarray" where
  "np_zeros sh = \<lparr>shape = sh, elems = replicate (prod_list sh) 0\<rparr>"

definition array1 :: "real list \<Rightarrow> ndarray" where
  "array1 xs = \<lparr>shape = [length xs], elems = xs\<rparr>"

text \<open>\<open>np.resize(a, n)\<close> on a one-dimensional array: the contents are repeated
  cyclically, an empty array gives zeros, a negative size raises.\<close>

definition np_resize :: "'a::zero list \<Rightarrow> int \<Rightarrow> exn + 'a list" where
  "np_resize xs new_size =
     (if new_size < 0 then Inl (ValueError ''negative dimensions are not allowed'')
      else if xs = [] then Inr (replicate (nat new_size) 0)
      else Inr (map (\<lambda>i. xs ! (i mod length xs)) [0..<nat new_size]))"

text \<open>Elementwise \<open>a - b\<close> of two one-dimensional arrays: equal lengths, or one of
  them of length one, which is broadcast; anything else raises.\<close>

definition np_sub :: "real list \<Rightarrow> real list \<Rightarrow> exn + real list" where
  "np_sub a b =
     (if length a = length b then Inr (map2 (-) a b)
      else if length b = 1 then Inr (map (\<lambda>v. v - hd b) a)
      else if length a = 1 then Inr (map (\<lambda>v. hd a - v) b)
      else Inl (ValueError ''operands could not be broadcast together''))"

section \<open>The world outside the wrapper\<close>

text \<open>
  The native routines of \<open>dfitpack\<close> and \<open>fitpack\<close> are not part of the wrapper: they
  are parameters of the model, gathered in a record. What the wrapper does to the world
  is the sequence of native calls it makes and the warnings it issues.
\<close>

datatype native_call =
    Fpcurf0 | Fpcurf1 | Fpcurfm1 | Fpchec
  | Splev | Splint | Spalde | Sproot | Splder | Splantider
  | Surfit_smth | Surfit_lsq | Regrid_smth
  | Bispev | Parder | Bispeu | Pardeu

record world =
  calls :: "native_call list"
  warnings :: "string list"

definition world0 :: world where
  "world0 = \<lparr>calls = [], warnings = []\<rparr>"

definition log_call :: "native_call \<Rightarrow> world \<Rightarrow> world" where
  "log_call c wd = wd\<lparr>calls := calls wd @ [c]\<rparr>"

definition warn :: "string \<Rightarrow> world \<Rightarrow> world" where
  "warn message wd = wd\<lparr>warnings := warnings wd @ [message]\<rparr>"

text \<open>The fitting routines, as opposed to the evaluators and the knot checker.\<close>

fun is_solver :: "native_call \<Rightarrow> bool" where
  "is_solver Fpcurf0 = True"
| "is_solver Fpcurf1 = True"
| "is_solver Fpcurfm1 = True"
| "is_solver Surfit_smth = True"
| "is_solver Surfit_lsq = True"
| "is_solver Regrid_smth = True"
| "is_solver _ = False"

definition solver_calls :: "world \<Rightarrow> nat" where
  "solver_calls wd = length (filter is_solver (calls wd))"

section \<open>Univariate splines\<close>

subsection \<open>Message and extrapolation tables\<close>

definition curfit_messages :: "int \<rightharpoonup> string" where
  "curfit_messages = map_of
    [(1, ''\<newline>The required storage space exceeds the available storage space, as\<newline>specified by the parameter nest: nest too small. If nest is already\<newline>large (say nest > m/2), it may also indicate that s is too small.\<newline>The approximation returned is the weighted least-squares spline\<newline>according to the knots t[0],t[1],...,t[n-1]. (n=nest) the parameter fp\<newline>gives the corresponding weighted sum of squared residuals (fp>s).\<newline>''),
     (2, ''\<newline>A theoretically impossible result was found during the iteration\<newline>proces for finding a smoothing spline with fp = s: s too small.\<newline>There is an approximation returned but the corresponding weighted sum\<newline>of squared residuals does not satisfy the condition abs(fp-s)/s < tol.''),
     (3, ''\<newline>The maximal number of iterations maxit (set to 20 by the program)\<newline>allowed for finding a smoothing spline with fp=s has been reached: s\<newline>too small.\<newline>There is an approximation returned but the corresponding weighted sum\<newline>of squared residuals does not satisfy the condition abs(fp-s)/s < tol.''),
     (10, ''\<newline>Error on entry, no approximation returned. The following conditions\<newline>must hold:\<newline>xb<=x[0]<x[1]<...<x[m-1]<=xe, w[i]>0, i=0..m-1\<newline>if iopt=-1:\<newline>  xb<t[k+1]<t[k+2]<...<t[n-k-2]<xe'')]"

text \<open>The \<open>ext\<close> parameter is an int or a string.\<close>

datatype ext_key = IntKey int | StrKey string

definition extrap_modes :: "ext_key \<rightharpoonup> int" where
  "extrap_modes = map_of
    [(IntKey 0, 0), (StrKey ''extrapolate'', 0),
     (IntKey 1, 1), (StrKey ''zeros'', 1),
     (IntKey 2, 2), (StrKey ''raise'', 2),
     (IntKey 3, 3), (StrKey ''const'', 3)]"

fun str_key :: "ext_key \<Rightarrow> string" where
  "str_key (IntKey i) = str_int i"
| "str_key (StrKey s) = s"

text \<open>The \<open>try: _extrap_modes[ext] except KeyError: raise ValueError\<close> block.\<close>

definition resolve_ext :: "ext_key \<Rightarrow> exn + int" where
  "resolve_ext key =
     (case extrap_modes key of
        Some code \<Rightarrow> Inr code
      | None \<Rightarrow> Inl (ValueError (''Unknown extrapolation mode '' @ str_key key @ ''.'')))"

subsection \<open>Fit data and spline objects\<close>

text \<open>The tuple the curve fitting routines return:
  \<open>x,y,w,xb,xe,k,s,n,t,c,fp,fpint,nrdata,ier\<close>.\<close>

record curfit_data =
  c_x :: "real list"
  c_y :: "real list"
  c_w :: "real list"
  c_xb :: real
  c_xe :: real
  c_k :: int
  c_s :: real
  c_n :: int
  c_t :: "real list"
  c_c :: "real list"
  c_fp :: real
  c_fpint :: "real list"
  c_nrdata :: "int list"
  c_ier :: int

text \<open>The tuple kept in \<open>self._data\<close>: the same fourteen places, where
  \<open>_from_tck\<close> and \<open>LSQUnivariateSpline\<close> put \<open>None\<close> in some of them.\<close>

record spline_data =
  d_x :: "real list option"
  d_y :: "real list option"
  d_w :: "real list option"
  d_xb :: "real option"
  d_xe :: "real option"
  d_k :: int
  d_s :: "real option"
  d_n :: int
  d_t :: "real list"
  d_c :: "real list"
  d_fp :: "real option"
  d_fpint :: "real list option"
  d_nrdata :: "int list option"
  d_ier :: "int option"

definition as_data :: "curfit_data \<Rightarrow> spline_data" where
  "as_data r =
     \<lparr>d_x = Some (c_x r), d_y = Some (c_y r), d_w = Some (c_w r),
      d_xb = Some (c_xb r), d_xe = Some (c_xe r), d_k = c_k r, d_s = Some (c_s r),
      d_n = c_n r, d_t = c_t r, d_c = c_c r, d_fp = Some (c_fp r),
      d_fpint = Some (c_fpint r), d_nrdata = Some (c_nrdata r), d_ier = Some (c_ier r)\<rparr>"

type_synonym tck = "real list \<times> real list \<times> int"

datatype spline_class =
    UnivariateSpline
  | InterpolatedUnivariateSpline
  | LSQUnivariateSpline
  | Subclass string

text \<open>A spline object: its \<open>__class__\<close> and the attributes the methods assign. An
  attribute that has not been assigned is \<open>None\<close> here and reading it raises
  \<open>AttributeError\<close>.\<close>

record uspline =
  obj_class :: spline_class
  obj_data :: "spline_data option"
  obj_eval_args :: "tck option"
  obj_ext :: "int option"
  obj_spline_class :: "spline_class option"

definition new_object :: "spline_class \<Rightarrow> uspline" where
  "new_object cls =
     \<lparr>obj_class = cls, obj_data = None, obj_eval_args = None, obj_ext = None,
      obj_spline_class = None\<rparr>"

text \<open>The native routines the univariate classes call.\<close>

record native1 =
  fpcurf0 :: "real list \<Rightarrow> real list \<Rightarrow> int \<Rightarrow> real list option \<Rightarrow> real option \<Rightarrow>
              real option \<Rightarrow> real option \<Rightarrow> exn + curfit_data"
  fpcurf1 :: "spline_data \<Rightarrow> exn + curfit_data"
  fpcurfm1 :: "real list \<Rightarrow> real list \<Rightarrow> int \<Rightarrow> real list \<Rightarrow> real list option \<Rightarrow>
               real \<Rightarrow> real \<Rightarrow> exn + curfit_data"
  fpchec :: "real list \<Rightarrow> real list \<Rightarrow> int \<Rightarrow> exn + int"
  splev :: "ndarray \<Rightarrow> tck \<Rightarrow> int \<Rightarrow> int \<Rightarrow> exn + ndarray"
  splint :: "real list \<Rightarrow> real list \<Rightarrow> int \<Rightarrow> real \<Rightarrow> real \<Rightarrow> exn + real"
  spalde :: "real list \<Rightarrow> real list \<Rightarrow> int \<Rightarrow> real \<Rightarrow> exn + real list \<times> int"
  sproot :: "real list \<Rightarrow> real list \<Rightarrow> exn + real list \<times> int \<times> int"
  splder :: "tck \<Rightarrow> int \<Rightarrow> exn + tck"
  splantider :: "tck \<Rightarrow> int \<Rightarrow> exn + tck"

subsection \<open>Class re-tagging and the nest retry\<close>

definition set_class :: "uspline \<Rightarrow> spline_class \<Rightarrow> uspline" where
  "set_class self cls =
     (let self = self\<lparr>obj_spline_class := Some cls\<rparr>
      in if obj_class self \<in> {UnivariateSpline, InterpolatedUnivariateSpline,
                               LSQUnivariateSpline}
         then self\<lparr>obj_class := cls\<rparr>
         else self)"

definition reset_class :: "uspline \<Rightarrow> world \<Rightarrow> (exn + unit) \<times> uspline \<times> world" where
  "reset_class self wd =
     (case obj_data self of
        None \<Rightarrow> (Inl (AttributeError ''_data''), self, wd)
      | Some data \<Rightarrow>
          let n = d_n data; t = d_t data; c = d_c data; k = d_k data; ier = d_ier data;
              self = self\<lparr>obj_eval_args := Some (py_upto t n, py_upto c n, k)\<rparr>
          in if ier = Some 0 then (Inr (), self, wd)
             else if ier = Some (- 1)
               then (Inr (), set_class self InterpolatedUnivariateSpline, wd)
             else if ier = Some (- 2)
               then (Inr (), set_class self LSQUnivariateSpline, wd)
             else
               let self = (if ier = Some 1 then set_class self LSQUnivariateSpline else self);
                   message =
                     (case ier of
                        None \<Rightarrow> ''ier=None''
                      | Some i \<Rightarrow>
                          (case curfit_messages i of
                             Some m \<Rightarrow> m
                           | None \<Rightarrow> ''ier='' @ str_int i))
               in (Inr (), self, warn message wd))"

text \<open>\<open>_reset_nest\<close> reads \<open>data[10]\<close> into the variable it calls \<open>n\<close> and puts it
  back in place 10; with the default \<open>nest=None\<close> the bound is \<open>m+k+1\<close>.\<close>

definition reset_nest ::
  "native1 \<Rightarrow> curfit_data \<Rightarrow> int option \<Rightarrow> world \<Rightarrow> (exn + curfit_data) \<times> world" where
  "reset_nest lib data nest wd =
     (let n = c_fp data
      in case (case nest of
                 None \<Rightarrow> Inr (int (length (c_x data)) + c_k data + 1)
               | Some ne \<Rightarrow>
                   if \<not> n \<le> real_of_int ne
                   then Inl (ValueError ''`nest` can only be increased'')
                   else Inr ne) of
           Inl e \<Rightarrow> (Inl e, wd)
         | Inr nest \<Rightarrow>
             (case (np_resize (c_t data) nest, np_resize (c_c data) nest,
                    np_resize (c_fpint data) nest, np_resize (c_nrdata data) nest) of
                (Inr t, Inr c, Inr fpint, Inr nrdata) \<Rightarrow>
                  (fpcurf1 lib ((as_data data)\<lparr>d_t := t, d_c := c, d_fp := Some n,
                                               d_fpint := Some fpint,
                                               d_nrdata := Some nrdata\<rparr>),
                   log_call Fpcurf1 wd)
              | (Inl e, _) \<Rightarrow> (Inl e, wd)
              | (_, Inl e, _) \<Rightarrow> (Inl e, wd)
              | (_, _, Inl e, _) \<Rightarrow> (Inl e, wd)
              | (_, _, _, Inl e) \<Rightarrow> (Inl e, wd)))"

subsection \<open>Constructors\<close>

text \<open>\<open>np.isfinite\<close> is true of every element of the model's arrays, so
  \<open>check_finite\<close> can only fail where it is applied to \<open>None\<close>, with numpy's
  \<open>TypeError\<close> (its message abridged here).\<close>

definition isfinite_None :: exn where
  "isfinite_None = TypeError ''ufunc isfinite not supported for the input types''"

definition UnivariateSpline_init ::
  "native1 \<Rightarrow> uspline \<Rightarrow> real list \<Rightarrow> real list \<Rightarrow> real list option \<Rightarrow>
   real option \<times> real option \<Rightarrow> int \<Rightarrow> real option \<Rightarrow> ext_key \<Rightarrow> bool \<Rightarrow> world \<Rightarrow>
   (exn + unit) \<times> uspline \<times> world" where
  "UnivariateSpline_init lib self x y w bbox k s ext check_finite wd =
     (case resolve_ext ext of
        Inl e \<Rightarrow> (Inl e, self, wd)
      | Inr code \<Rightarrow>
          let self = self\<lparr>obj_ext := Some code\<rparr>;
              wd = log_call Fpcurf0 wd
          in case fpcurf0 lib x y k w (fst bbox) (snd bbox) s of
               Inl e \<Rightarrow> (Inl e, self, wd)
             | Inr data \<Rightarrow>
                 (case (if c_ier data = 1 then reset_nest lib data None wd
                        else (Inr data, wd)) of
                    (Inl e, wd) \<Rightarrow> (Inl e, self, wd)
                  | (Inr data, wd) \<Rightarrow>
                      reset_class (self\<lparr>obj_data := Some (as_data data)\<rparr>) wd))"

definition InterpolatedUnivariateSpline_init ::
  "native1 \<Rightarrow> uspline \<Rightarrow> real list \<Rightarrow> real list \<Rightarrow> real list option \<Rightarrow>
   real option \<times> real option \<Rightarrow> int \<Rightarrow> ext_key \<Rightarrow> bool \<Rightarrow> world \<Rightarrow>
   (exn + unit) \<times> uspline \<times> world" where
  "InterpolatedUnivariateSpline_init lib self x y w bbox k ext check_finite wd =
     (if check_finite \<and> w = None then (Inl isfinite_None, self, wd)
      else
        let wd = log_call Fpcurf0 wd
        in case fpcurf0 lib x y k w (fst bbox) (snd bbox) (Some 0) of
             Inl e \<Rightarrow> (Inl e, self, wd)
           | Inr data \<Rightarrow>
               (case reset_class (self\<lparr>obj_data := Some (as_data data)\<rparr>) wd of
                  (Inl e, self, wd) \<Rightarrow> (Inl e, self, wd)
                | (Inr _, self, wd) \<Rightarrow>
                    (case resolve_ext ext of
                       Inl e \<Rightarrow> (Inl e, self, wd)
                     | Inr code \<Rightarrow> (Inr (), self\<lparr>obj_ext := Some code\<rparr>, wd))))"

definition fpchec_error_string :: string where
  "fpchec_error_string = ''The input parameters have been rejected by fpchec. This means that at least one of the following conditions is violated:\<newline>\<newline>1) k+1 <= n-k-1 <= m\<newline>2) t(1) <= t(2) <= ... <= t(k+1)\<newline>   t(n-k) <= t(n-k+1) <= ... <= t(n)\<newline>3) t(k+1) < t(k+2) < ... < t(n-k)\<newline>4) t(k+1) <= x(i) <= t(n-k)\<newline>5) The conditions specified by Schoenberg and Whitney must hold\<newline>   for at least one subset of data points, i.e., there must be a\<newline>   subset of data points y(j) such that\<newline>       t(j) < y(j) < t(j+k+1), j=1,2,...,n-k-1\<newline>''"

text \<open>\<open>x[0]\<close> and \<open>x[-1]\<close> of a sequence.\<close>

definition py_first :: "real list \<Rightarrow> exn + real" where
  "py_first xs = (if xs = [] then Inl (IndexError ''index out of range'') else Inr (hd xs))"

definition py_last :: "real list \<Rightarrow> exn + real" where
  "py_last xs = (if xs = [] then Inl (IndexError ''index out of range'') else Inr (last xs))"

text \<open>The knot vector \<open>concatenate(([xb]*(k+1), t, [xe]*(k+1)))\<close>.\<close>

definition padded_knots :: "real \<Rightarrow> real \<Rightarrow> int \<Rightarrow> real list \<Rightarrow> real list" where
  "padded_knots xb xe k t = replicate (nat (k + 1)) xb @ t @ replicate (nat (k + 1)) xe"

definition LSQUnivariateSpline_init ::
  "native1 \<Rightarrow> uspline \<Rightarrow> real list \<Rightarrow> real list \<Rightarrow> real list \<Rightarrow> real list option \<Rightarrow>
   real option \<times> real option \<Rightarrow> int \<Rightarrow> ext_key \<Rightarrow> bool \<Rightarrow> world \<Rightarrow>
   (exn + unit) \<times> uspline \<times> world" where
  "LSQUnivariateSpline_init lib self x y t w bbox k ext check_finite wd =
     (if check_finite \<and> w = None then (Inl isfinite_None, self, wd)
      else
        case (case fst bbox of None \<Rightarrow> py_first x | Some v \<Rightarrow> Inr v) of
          Inl e \<Rightarrow> (Inl e, self, wd)
        | Inr xb \<Rightarrow>
        case (case snd bbox of None \<Rightarrow> py_last x | Some v \<Rightarrow> Inr v) of
          Inl e \<Rightarrow> (Inl e, self, wd)
        | Inr xe \<Rightarrow>
        let t = padded_knots xb xe k t;
            n = int (length t)
        in case np_sub (py_slice t (k + 1) (n - k)) (py_slice t k (n - k - 1)) of
             Inl e \<Rightarrow> (Inl e, self, wd)
           | Inr d \<Rightarrow>
        if \<not> list_all (\<lambda>v. v > 0) d
        then (Inl (ValueError
                ''Interior knots t must satisfy Schoenberg-Whitney conditions''), self, wd)
        else
          let wd = log_call Fpchec wd
          in case fpchec lib x t k of
               Inl e \<Rightarrow> (Inl e, self, wd)
             | Inr chk \<Rightarrow>
          if \<not> chk = 0 then (Inl (ValueError fpchec_error_string), self, wd)
          else
            let wd = log_call Fpcurfm1 wd
            in case fpcurfm1 lib x y k t w xb xe of
                 Inl e \<Rightarrow> (Inl e, self, wd)
               | Inr data \<Rightarrow>
                   (case reset_class
                           (self\<lparr>obj_data :=
                              Some ((as_data data)\<lparr>d_fpint := None, d_nrdata := None\<rparr>)\<rparr>)
                           wd of
                      (Inl e, self, wd) \<Rightarrow> (Inl e, self, wd)
                    | (Inr _, self, wd) \<Rightarrow>
                        (case resolve_ext ext of
                           Inl e \<Rightarrow> (Inl e, self, wd)
                         | Inr code \<Rightarrow> (Inr (), self\<lparr>obj_ext := Some code\<rparr>, wd))))"

definition from_tck :: "spline_class \<Rightarrow> tck \<Rightarrow> int \<Rightarrow> uspline" where
  "from_tck cls tck ext =
     (case tck of (t, c, k) \<Rightarrow>
        \<lparr>obj_class = cls,
         obj_data = Some \<lparr>d_x = None, d_y = None, d_w = None, d_xb = None, d_xe = None,
                          d_k = k, d_s = None, d_n = int (length t), d_t = t, d_c = c,
                          d_fp = None, d_fpint = None, d_nrdata = None, d_ier = None\<rparr>,
         obj_eval_args = Some tck,
         obj_ext = Some ext,
         obj_spline_class = None\<rparr>)"

subsection \<open>Methods\<close>

definition set_smoothing_factor ::
  "native1 \<Rightarrow> uspline \<Rightarrow> real \<Rightarrow> world \<Rightarrow> (exn + unit) \<times> uspline \<times> world" where
  "set_smoothing_factor lib self s wd =
     (case obj_data self of
        None \<Rightarrow> (Inl (AttributeError ''_data''), self, wd)
      | Some data \<Rightarrow>
          if d_s data = Some (- 1)
          then (Inr (), self,
                warn ''smoothing factor unchanged forLSQ spline with fixed knots'' wd)
          else
            let args = data\<lparr>d_s := Some s\<rparr>;
                wd = log_call Fpcurf1 wd
            in case fpcurf1 lib args of
                 Inl e \<Rightarrow> (Inl e, self, wd)
               | Inr data \<Rightarrow>
                   (case (if c_ier data = 1 then reset_nest lib data None wd
                          else (Inr data, wd)) of
                      (Inl e, wd) \<Rightarrow> (Inl e, self, wd)
                    | (Inr data, wd) \<Rightarrow>
                        reset_class (self\<lparr>obj_data := Some (as_data data)\<rparr>) wd))"

text \<open>\<open>__call__(x, nu, ext)\<close>; \<open>ext=None\<close> takes the mode stored at construction.\<close>

definition spline_call ::
  "native1 \<Rightarrow> uspline \<Rightarrow> ndarray \<Rightarrow> int \<Rightarrow> ext_key option \<Rightarrow> world \<Rightarrow>
   (exn + ndarray) \<times> uspline \<times> world" where
  "spline_call lib self x nu ext wd =
     (if nd_size x = 0 then (Inr empty_array, self, wd)
      else
        case (case ext of
                None \<Rightarrow>
                  (case obj_ext self of
                     None \<Rightarrow> Inl (AttributeError ''ext'')
                   | Some code \<Rightarrow> Inr code)
              | Some key \<Rightarrow> resolve_ext key) of
          Inl e \<Rightarrow> (Inl e, self, wd)
        | Inr code \<Rightarrow>
            (case obj_eval_args self of
               None \<Rightarrow> (Inl (AttributeError ''_eval_args''), self, wd)
             | Some tck \<Rightarrow> (splev lib x tck nu code, self, log_call Splev wd)))"

definition get_knots :: "uspline \<Rightarrow> world \<Rightarrow> (exn + real list) \<times> uspline \<times> world" where
  "get_knots self wd =
     (case obj_data self of
        None \<Rightarrow> (Inl (AttributeError ''_data''), self, wd)
      | Some data \<Rightarrow>
          let k = d_k data; n = d_n data
          in (Inr (py_slice (d_t data) k (n - k)), self, wd))"

definition get_coeffs :: "uspline \<Rightarrow> world \<Rightarrow> (exn + real list) \<times> uspline \<times> world" where
  "get_coeffs self wd =
     (case obj_data self of
        None \<Rightarrow> (Inl (AttributeError ''_data''), self, wd)
      | Some data \<Rightarrow>
          let k = d_k data; n = d_n data
          in (Inr (py_upto (d_c data) (n - k - 1)), self, wd))"

definition get_residual ::
  "uspline \<Rightarrow> world \<Rightarrow> (exn + real option) \<times> uspline \<times> world" where
  "get_residual self wd =
     (case obj_data self of
        None \<Rightarrow> (Inl (AttributeError ''_data''), self, wd)
      | Some data \<Rightarrow> (Inr (d_fp data), self, wd))"

definition integral ::
  "native1 \<Rightarrow> uspline \<Rightarrow> real \<Rightarrow> real \<Rightarrow> world \<Rightarrow> (exn + real) \<times> uspline \<times> world" where
  "integral lib self a b wd =
     (case obj_eval_args self of
        None \<Rightarrow> (Inl (AttributeError ''_eval_args''), self, wd)
      | Some (t, c, k) \<Rightarrow> (splint lib t c k a b, self, log_call Splint wd))"

definition derivatives ::
  "native1 \<Rightarrow> uspline \<Rightarrow> real \<Rightarrow> world \<Rightarrow> (exn + real list) \<times> uspline \<times> world" where
  "derivatives lib self x wd =
     (case obj_eval_args self of
        None \<Rightarrow> (Inl (AttributeError ''_eval_args''), self, wd)
      | Some (t, c, k) \<Rightarrow>
          let wd = log_call Spalde wd
          in case spalde lib t c k x of
               Inl e \<Rightarrow> (Inl e, self, wd)
             | Inr (d, ier) \<Rightarrow>
                 if \<not> ier = 0
                 then (Inl (ValueError (''Error code returned by spalde: '' @ str_int ier)),
                       self, wd)
                 else (Inr d, self, wd))"

definition roots :: "native1 \<Rightarrow> uspline \<Rightarrow> world \<Rightarrow> (exn + real list) \<times> uspline \<times> world" where
  "roots lib self wd =
     (case obj_data self of
        None \<Rightarrow> (Inl (AttributeError ''_data''), self, wd)
      | Some data \<Rightarrow>
          let k = d_k data
          in if k = 3 then
               (case obj_eval_args self of
                  None \<Rightarrow> (Inl (AttributeError ''_eval_args''), self, wd)
                | Some (t, c, _) \<Rightarrow>
                    let wd = log_call Sproot wd
                    in case sproot lib t c of
                         Inl e \<Rightarrow> (Inl e, self, wd)
                       | Inr (z, m, ier) \<Rightarrow>
                           if \<not> ier = 0
                           then (Inl (ValueError (''Error code returned by spalde: ''
                                                   @ str_int ier)), self, wd)
                           else (Inr (py_upto z m), self, wd))
             else (Inl (NotImplementedError
                          ''finding roots unsupported for non-cubic splines''), self, wd))"

text \<open>\<open>derivative\<close> and \<open>antiderivative\<close> return a new \<open>UnivariateSpline\<close> built by
  \<open>_from_tck\<close>.\<close>

definition derivative ::
  "native1 \<Rightarrow> uspline \<Rightarrow> int \<Rightarrow> world \<Rightarrow> (exn + uspline) \<times> uspline \<times> world" where
  "derivative lib self n wd =
     (case obj_eval_args self of
        None \<Rightarrow> (Inl (AttributeError ''_eval_args''), self, wd)
      | Some args \<Rightarrow>
          let wd = log_call Splder wd
          in case splder lib args n of
               Inl e \<Rightarrow> (Inl e, self, wd)
             | Inr tck \<Rightarrow>
                 (case obj_ext self of
                    None \<Rightarrow> (Inl (AttributeError ''ext''), self, wd)
                  | Some code \<Rightarrow> (Inr (from_tck UnivariateSpline tck code), self, wd)))"

definition antiderivative ::
  "native1 \<Rightarrow> uspline \<Rightarrow> int \<Rightarrow> world \<Rightarrow> (exn + uspline) \<times> uspline \<times> world" where
  "antiderivative lib self n wd =
     (case obj_eval_args self of
        None \<Rightarrow> (Inl (AttributeError ''_eval_args''), self, wd)
      | Some args \<Rightarrow>
          let wd = log_call Splantider wd
          in case splantider lib args n of
               Inl e \<Rightarrow> (Inl e, self, wd)
             | Inr tck \<Rightarrow>
                 (case obj_ext self of
                    None \<Rightarrow> (Inl (AttributeError ''ext''), self, wd)
                  | Some code \<Rightarrow> (Inr (from_tck UnivariateSpline tck code), self, wd)))"

section \<open>Bivariate splines\<close>

subsection \<open>numpy helpers\<close>

text \<open>\<open>np.diff\<close>, \<open>min\<close> and \<open>max\<close> of a one-dimensional array; the reductions raise on
  an empty array.\<close>

definition np_diff :: "real list \<Rightarrow> real list" where
  "np_diff xs = map2 (\<lambda>b a. b - a) (tl xs) xs"

definition np_min :: "real list \<Rightarrow> exn + real" where
  "np_min xs =
     (if xs = [] then Inl (ValueError ''zero-size array to reduction operation minimum'')
      else Inr (fold min (tl xs) (hd xs)))"

definition np_max :: "real list \<Rightarrow> exn + real" where
  "np_max xs =
     (if xs = [] then Inl (ValueError ''zero-size array to reduction operation maximum'')
      else Inr (fold max (tl xs) (hd xs)))"

text \<open>Broadcasting of two shapes, trailing dimension first: two dimensions agree when
  they are equal or one of them is 1.\<close>

fun broadcast_dims :: "nat list \<Rightarrow> nat list \<Rightarrow> nat list option" where
  "broadcast_dims [] bs = Some bs"
| "broadcast_dims (a # as) [] = Some (a # as)"
| "broadcast_dims (a # as) (b # bs) =
     (if a = b \<or> b = 1 then map_option ((#) a) (broadcast_dims as bs)
      else if a = 1 then map_option ((#) b) (broadcast_dims as bs)
      else None)"

definition broadcast_shapes :: "nat list \<Rightarrow> nat list \<Rightarrow> nat list option" where
  "broadcast_shapes s1 s2 = map_option rev (broadcast_dims (rev s1) (rev s2))"

text \<open>The elements of an array of shape \<open>src\<close> broadcast to \<open>dst\<close> (same rank), in
  row-major order: a dimension of size 1 is repeated.\<close>

fun bcast :: "nat list \<Rightarrow> nat list \<Rightarrow> real list \<Rightarrow> real list" where
  "bcast (s # ss) (d # ds) xs =
     (if s = d
      then concat (map (\<lambda>i. bcast ss ds (take (prod_list ss) (drop (i * prod_list ss) xs)))
                       [0..<s])
      else concat (replicate d (bcast ss ds xs)))"
| "bcast _ _ xs = xs"

definition broadcast_to :: "ndarray \<Rightarrow> nat list \<Rightarrow> ndarray" where
  "broadcast_to a sh =
     \<lparr>shape = sh,
      elems = bcast (replicate (length sh - length (shape a)) 1 @ shape a) sh (elems a)\<rparr>"

definition broadcast_arrays :: "ndarray \<Rightarrow> ndarray \<Rightarrow> exn + ndarray \<times> ndarray" where
  "broadcast_arrays a b =
     (case broadcast_shapes (shape a) (shape b) of
        None \<Rightarrow> Inl (ValueError
                  ''shape mismatch: objects cannot be broadcast to a single shape'')
      | Some sh \<Rightarrow> Inr (broadcast_to a sh, broadcast_to b sh))"

definition reshape :: "ndarray \<Rightarrow> nat list \<Rightarrow> exn + ndarray" where
  "reshape a sh =
     (if prod_list sh = nd_size a then Inr (a\<lparr>shape := sh\<rparr>)
      else Inl (ValueError ''cannot reshape array''))"

subsection \<open>Message table, fit results and objects\<close>

definition surfit_messages :: "int \<rightharpoonup> string" where
  "surfit_messages = map_of
    [(1, ''\<newline>The required storage space exceeds the available storage space: nxest\<newline>or nyest too small, or s too small.\<newline>The weighted least-squares spline corresponds to the current set of\<newline>knots.''),
     (2, ''\<newline>A theoretically impossible result was found during the iteration\<newline>process for finding a smoothing spline with fp = s: s too small or\<newline>badly chosen eps.\<newline>Weighted sum of squared residuals does not satisfy abs(fp-s)/s < tol.''),
     (3, ''\<newline>the maximal number of iterations maxit (set to 20 by the program)\<newline>allowed for finding a smoothing spline with fp=s has been reached:\<newline>s too small.\<newline>Weighted sum of squared residuals does not satisfy abs(fp-s)/s < tol.''),
     (4, ''\<newline>No more knots can be added because the number of b-spline coefficients\<newline>(nx-kx-1)*(ny-ky-1) already exceeds the number of data points m:\<newline>either s or m too small.\<newline>The weighted least-squares spline corresponds to the current set of\<newline>knots.''),
     (5, ''\<newline>No more knots can be added because the additional knot would (quasi)\<newline>coincide with an old one: s too small or too large a weight to an\<newline>inaccurate data point.\<newline>The weighted least-squares spline corresponds to the current set of\<newline>knots.''),
     (10, ''\<newline>Error on entry, no approximation returned. The following conditions\<newline>must hold:\<newline>xb<=x[i]<=xe, yb<=y[i]<=ye, w[i]>0, i=0..m-1\<newline>If iopt==-1, then\<newline>  xb<tx[kx+1]<tx[kx+2]<...<tx[nx-kx-2]<xe\<newline>  yb<ty[ky+1]<ty[ky+2]<...<ty[ny-ky-2]<ye''),
     (- 3, ''\<newline>The coefficients of the spline returned have been computed as the\<newline>minimal norm least-squares solution of a (numerically) rank deficient\<newline>system (deficiency=%i). If deficiency is large, the results may be\<newline>inaccurate. Deficiency may strongly depend on the value of eps.'')]"

text \<open>\<open>_surfit_messages.get(ier, 'ier=%s' % (ier))\<close>.\<close>

definition surfit_message :: "int \<Rightarrow> string" where
  "surfit_message ier =
     (case surfit_messages ier of Some m \<Rightarrow> m | None \<Rightarrow> ''ier='' @ str_int ier)"

text \<open>What the surface fitting routines return: \<open>nx,tx,ny,ty,c,fp,ier\<close>, and
  \<open>surfit_smth\<close> a work array \<open>wrk1\<close> as well.\<close>

record surface_fit =
  f_nx :: int
  f_tx :: "real list"
  f_ny :: int
  f_ty :: "real list"
  f_c :: "real list"
  f_fp :: real
  f_ier :: int

record surfit_result = surface_fit +
  f_wrk1 :: "real list"

type_synonym bbox4 = "real option \<times> real option \<times> real option \<times> real option"

record native2 =
  surfit_smth :: "real list \<Rightarrow> real list \<Rightarrow> real list \<Rightarrow> real list option \<Rightarrow> bbox4 \<Rightarrow>
                  int \<Rightarrow> int \<Rightarrow> real option \<Rightarrow> real option \<Rightarrow> int \<Rightarrow> exn + surfit_result"
  regrid_smth :: "real list \<Rightarrow> real list \<Rightarrow> real list \<Rightarrow> bbox4 \<Rightarrow> int \<Rightarrow> int \<Rightarrow> real \<Rightarrow>
                  exn + surface_fit"
  bispev :: "real list \<Rightarrow> real list \<Rightarrow> real list \<Rightarrow> int \<Rightarrow> int \<Rightarrow> ndarray \<Rightarrow> ndarray \<Rightarrow>
             exn + ndarray \<times> int"
  parder :: "real list \<Rightarrow> real list \<Rightarrow> real list \<Rightarrow> int \<Rightarrow> int \<Rightarrow> int \<Rightarrow> int \<Rightarrow>
             ndarray \<Rightarrow> ndarray \<Rightarrow> exn + ndarray \<times> int"
  bispeu :: "real list \<Rightarrow> real list \<Rightarrow> real list \<Rightarrow> int \<Rightarrow> int \<Rightarrow> ndarray \<Rightarrow> ndarray \<Rightarrow>
             exn + ndarray \<times> int"
  pardeu :: "real list \<Rightarrow> real list \<Rightarrow> real list \<Rightarrow> int \<Rightarrow> int \<Rightarrow> int \<Rightarrow> int \<Rightarrow>
             ndarray \<Rightarrow> ndarray \<Rightarrow> exn + ndarray \<times> int"

text \<open>A bivariate spline object: the attributes \<open>fp\<close>, \<open>tck\<close> and \<open>degrees\<close>.\<close>

record bspline =
  b_fp :: "real option"
  b_tck :: "(real list \<times> real list \<times> real list) option"
  b_degrees :: "(int \<times> int) option"

definition new_bspline :: bspline where
  "new_bspline = \<lparr>b_fp = None, b_tck = None, b_degrees = None\<rparr>"

subsection \<open>Constructors\<close>

definition SmoothBivariateSpline_init ::
  "native2 \<Rightarrow> bspline \<Rightarrow> real list \<Rightarrow> real list \<Rightarrow> real list \<Rightarrow> real list option \<Rightarrow>
   bbox4 \<Rightarrow> int \<Rightarrow> int \<Rightarrow> real option \<Rightarrow> real option \<Rightarrow> world \<Rightarrow>
   (exn + unit) \<times> bspline \<times> world" where
  "SmoothBivariateSpline_init lib self x y z w bbox kx ky s eps wd =
     (let wd = log_call Surfit_smth wd
      in case surfit_smth lib x y z w bbox kx ky s eps 1 of
           Inl e \<Rightarrow> (Inl e, self, wd)
         | Inr r \<Rightarrow>
             (case (if f_ier r > 10
                    then (surfit_smth lib x y z w bbox kx ky s eps (f_ier r),
                          log_call Surfit_smth wd)
                    else (Inr r, wd)) of
                (Inl e, wd) \<Rightarrow> (Inl e, self, wd)
              | (Inr r, wd) \<Rightarrow>
                  let ier = f_ier r; nx = f_nx r; ny = f_ny r;
                      wd = (if ier \<in> {0, - 1, - 2} then wd
                            else warn (surfit_message ier) wd)
                  in (Inr (),
                      self\<lparr>b_fp := Some (f_fp r),
                           b_tck := Some (py_upto (f_tx r) nx, py_upto (f_ty r) ny,
                                          py_upto (f_c r) ((nx - kx - 1) * (ny - ky - 1))),
                           b_degrees := Some (kx, ky)\<rparr>,
                      wd)))"

definition RectBivariateSpline_init ::
  "native2 \<Rightarrow> bspline \<Rightarrow> ndarray \<Rightarrow> ndarray \<Rightarrow> ndarray \<Rightarrow> bbox4 \<Rightarrow> int \<Rightarrow> int \<Rightarrow> real \<Rightarrow>
   world \<Rightarrow> (exn + unit) \<times> bspline \<times> world" where
  "RectBivariateSpline_init lib self x y z bbox kx ky s wd =
     (let x = elems x; y = elems y
      in if \<not> list_all (\<lambda>d. d > 0) (np_diff x)
         then (Inl (TypeError ''x must be strictly increasing''), self, wd)
         else if \<not> list_all (\<lambda>d. d > 0) (np_diff y)
         then (Inl (TypeError ''y must be strictly increasing''), self, wd)
         else
           case np_min x of Inl e \<Rightarrow> (Inl e, self, wd) | Inr xmin \<Rightarrow>
           if \<not> (xmin = hd x \<and> np_max x = Inr (last x))
           then (Inl (TypeError ''x must be strictly ascending''), self, wd)
           else
           case np_min y of Inl e \<Rightarrow> (Inl e, self, wd) | Inr ymin \<Rightarrow>
           if \<not> (ymin = hd y \<and> np_max y = Inr (last y))
           then (Inl (TypeError ''y must be strictly ascending''), self, wd)
           else if length (shape z) < 1
           then (Inl (IndexError ''tuple index out of range''), self, wd)
           else if \<not> length x = shape z ! 0
           then (Inl (TypeError
                   ''x dimension of z must have same number of elements as x''), self, wd)
           else if length (shape z) < 2
           then (Inl (IndexError ''tuple index out of range''), self, wd)
           else if \<not> length y = shape z ! 1
           then (Inl (TypeError
                   ''y dimension of z must have same number of elements as y''), self, wd)
           else
             let z = elems z;
                 wd = log_call Regrid_smth wd
             in case regrid_smth lib x y z bbox kx ky s of
                  Inl e \<Rightarrow> (Inl e, self, wd)
                | Inr r \<Rightarrow>
                    let ier = f_ier r; nx = f_nx r; ny = f_ny r
                    in if ier \<notin> {0, - 1, - 2}
                       then (Inl (ValueError (surfit_message ier)), self, wd)
                       else
                         (Inr (),
                          self\<lparr>b_fp := Some (f_fp r),
                               b_tck := Some (py_upto (f_tx r) nx, py_upto (f_ty r) ny,
                                              py_upto (f_c r)
                                                ((nx - kx - 1) * (ny - ky - 1))),
                               b_degrees := Some (kx, ky)\<rparr>,
                          wd))"

subsection \<open>Evaluation\<close>

text \<open>The lines that follow each native evaluation,
  \<open>z,ier = dfitpack.f(...)\<close> and \<open>if not ier == 0: raise ValueError(...)\<close>.\<close>

definition checked :: "string \<Rightarrow> exn + ndarray \<times> int \<Rightarrow> exn + ndarray" where
  "checked name r =
     (case r of
        Inl e \<Rightarrow> Inl e
      | Inr (z, ier) \<Rightarrow>
          if \<not> ier = 0
          then Inl (ValueError (''Error code returned by '' @ name @ '': '' @ str_int ier))
          else Inr z)"

text \<open>\<open>_BivariateSplineBase.__call__(x, y, mth, dx, dy, grid)\<close>.\<close>

definition bivariate_call ::
  "native2 \<Rightarrow> bspline \<Rightarrow> ndarray \<Rightarrow> ndarray \<Rightarrow> string option \<Rightarrow> int \<Rightarrow> int \<Rightarrow> bool \<Rightarrow>
   world \<Rightarrow> (exn + ndarray) \<times> bspline \<times> world" where
  "bivariate_call lib self x y mth dx dy grid wd =
     (let wd = (if mth \<noteq> None
                then warn ''The `mth` argument is deprecated and will be removed'' wd
                else wd)
      in case b_tck self of
           None \<Rightarrow> (Inl (AttributeError ''tck''), self, wd)
         | Some (tx, ty, c) \<Rightarrow>
         case b_degrees self of
           None \<Rightarrow> (Inl (AttributeError ''degrees''), self, wd)
         | Some (kx, ky) \<Rightarrow>
         if grid then
           if nd_size x = 0 \<or> nd_size y = 0
           then (Inr (np_zeros [nd_size x, nd_size y]), self, wd)
           else if dx \<noteq> 0 \<or> dy \<noteq> 0
           then (checked ''parder'' (parder lib tx ty c kx ky dx dy x y), self,
                 log_call Parder wd)
           else (checked ''bispev'' (bispev lib tx ty c kx ky x y), self,
                 log_call Bispev wd)
         else
           case (if shape x \<noteq> shape y then broadcast_arrays x y else Inr (x, y)) of
             Inl e \<Rightarrow> (Inl e, self, wd)
           | Inr (x, y) \<Rightarrow>
           let shp = shape x;
               x = \<lparr>shape = [nd_size x], elems = elems x\<rparr>;
               y = \<lparr>shape = [nd_size y], elems = elems y\<rparr>
           in if nd_size x = 0 \<or> nd_size y = 0
              then (Inr (np_zeros shp), self, wd)
              else if dx \<noteq> 0 \<or> dy \<noteq> 0
              then ((case checked ''pardeu'' (pardeu lib tx ty c kx ky dx dy x y) of
                       Inl e \<Rightarrow> Inl e
                     | Inr z \<Rightarrow> reshape z shp), self, log_call Pardeu wd)
              else ((case checked ''bispeu'' (bispeu lib tx ty c kx ky x y) of
                       Inl e \<Rightarrow> Inl e
                     | Inr z \<Rightarrow> reshape z shp), self, log_call Bispeu wd))"

text \<open>\<open>BivariateSpline.ev\<close> is the pointwise call.\<close>

definition ev ::
  "native2 \<Rightarrow> bspline \<Rightarrow> ndarray \<Rightarrow> ndarray \<Rightarrow> int \<Rightarrow> int \<Rightarrow> world \<Rightarrow>
   (exn + ndarray) \<times> bspline \<times> world" where
  "ev lib self xi yi dx dy wd = bivariate_call lib self xi yi None dx dy False wd"

text \<open>\<open>np.pi\<close> is the double nearest to \<open>\<pi>\<close>; doubling it is exact.\<close>

definition np_pi :: real where
  "np_pi = 884279719003555 / 281474976710656"

text \<open>\<open>SphereBivariateSpline.__call__(theta, phi, dtheta, dphi, grid)\<close>. The
  reductions are only reached on a non-empty array.\<close>

definition out_of_bounds :: "ndarray \<Rightarrow> real \<Rightarrow> bool" where
  "out_of_bounds a hi \<longleftrightarrow>
     nd_size a > 0 \<and>
     (fold min (tl (elems a)) (hd (elems a)) < 0 \<or> fold max (tl (elems a)) (hd (elems a)) > hi)"

definition sphere_call ::
  "native2 \<Rightarrow> bspline \<Rightarrow> ndarray \<Rightarrow> ndarray \<Rightarrow> int \<Rightarrow> int \<Rightarrow> bool \<Rightarrow> world \<Rightarrow>
   (exn + ndarray) \<times> bspline \<times> world" where
  "sphere_call lib self theta phi dtheta dphi grid wd =
     (if out_of_bounds theta np_pi
      then (Inl (ValueError ''requested theta out of bounds.''), self, wd)
      else if out_of_bounds phi (2 * np_pi)
      then (Inl (ValueError ''requested phi out of bounds.''), self, wd)
      else bivariate_call lib self theta phi None dtheta dphi grid wd)"

section \<open>The rules the properties are stated against\<close>



section \<open>Fixed stand-ins for the native library\<close>

text \<open>Concrete libraries for evaluating the wrapper on examples: the fitting routines
  return a fixed cubic fit on four points with the status codes given, the evaluators
  return fixed values.\<close>

definition fit4 :: "int \<Rightarrow> real \<Rightarrow> curfit_data" where
  "fit4 ier s =
     \<lparr>c_x = [0, 1, 2, 3], c_y = [0, 1, 8, 27], c_w = [1, 1, 1, 1], c_xb = 0, c_xe = 3,
      c_k = 3, c_s = s, c_n = 8, c_t = [0, 0, 0, 0, 3, 3, 3, 3],
      c_c = [0, 0, 0, 27, 0, 0, 0, 0], c_fp = 0, c_fpint = [0, 0, 0, 0, 0, 0, 0, 0],
      c_nrdata = [0, 0, 0, 0, 0, 0, 0, 0], c_ier = ier\<rparr>"

definition fixed_native1 :: "int \<Rightarrow> int \<Rightarrow> native1" where
  "fixed_native1 ier0 ier1 =
     \<lparr>fpcurf0 = (\<lambda>x y k w xb xe s. Inr (fit4 ier0 0)),
      fpcurf1 = (\<lambda>args. Inr (fit4 ier1 0)),
      fpcurfm1 = (\<lambda>x y k t w xb xe. Inr ((fit4 ier0 (- 1))\<lparr>c_n := int (length t), c_t := t\<rparr>)),
      fpchec = (\<lambda>x t k. Inr 0),
      splev = (\<lambda>x tck nu e. Inr x),
      splint = (\<lambda>t c k a b. Inr 0),
      spalde = (\<lambda>t c k x. Inr ([0, 0, 0, 0], 0)),
      sproot = (\<lambda>t c. Inr ([0, 5, 7], 1, ier1)),
      splder = (\<lambda>tck n. Inr tck),
      splantider = (\<lambda>tck n. Inr tck)\<rparr>"

definition surf4 :: "int \<Rightarrow> surface_fit" where
  "surf4 ier =
     \<lparr>f_nx = 8, f_tx = [0, 0, 0, 0, 1, 1, 1, 1], f_ny = 8, f_ty = [0, 0, 0, 0, 1, 1, 1, 1],
      f_c = replicate 16 0, f_fp = 0, f_ier = ier\<rparr>"

definition fixed_native2 :: "int \<Rightarrow> int \<Rightarrow> native2" where
  "fixed_native2 ier0 ier1 =
     \<lparr>surfit_smth = (\<lambda>x y z w bbox kx ky s eps lwrk2.
         Inr (surface_fit.extend (surf4 (if lwrk2 = 1 then ier0 else ier1))
                (surfit_result.fields []))),
      regrid_smth = (\<lambda>x y z bbox kx ky s. Inr (surf4 ier0)),
      bispev = (\<lambda>tx ty c kx ky x y. Inr (np_zeros [nd_size x, nd_size y], 0)),
      parder = (\<lambda>tx ty c kx ky dx dy x y. Inr (np_zeros [nd_size x, nd_size y], 0)),
      bispeu = (\<lambda>tx ty c kx ky x y. Inr (x, 0)),
      pardeu = (\<lambda>tx ty c kx ky dx dy x y. Inr (x, 0))\<rparr>"

text \<open>A fitted cubic spline object, as the constructor leaves it on status 0.\<close>

definition cubic_object :: uspline where
  "cubic_object =
     \<lparr>obj_class = UnivariateSpline, obj_data = Some (as_data (fit4 0 0)),
      obj_eval_args = Some ([0, 0, 0, 0, 3, 3, 3, 3], [0, 0, 0, 27, 0, 0, 0, 0], 3),
      obj_ext = Some 0, obj_spline_class = None\<rparr>"


text \<open>A least-squares spline with fixed knots, as \<open>LSQUnivariateSpline\<close> leaves it when
  \<open>fpcurfm1\<close> reports the smoothing factor -1.\<close>

definition fixed_knots_object :: uspline where
  "fixed_knots_object =
     \<lparr>obj_class = LSQUnivariateSpline,
      obj_data = Some ((as_data (fit4 0 (- 1)))\<lparr>d_fpint := None, d_nrdata := None\<rparr>),
      obj_eval_args = Some ([0, 0, 0, 0, 3, 3, 3, 3], [0, 0, 0, 27, 0, 0, 0, 0], 3),
      obj_ext = Some 0, obj_spline_class = None\<rparr>"

section \<open>Properties\<close>

subsection \<open>Unfolding the model on concrete inputs\<close>

lemmas eval_defs =
  UnivariateSpline_init_def InterpolatedUnivariateSpline_init_def LSQUnivariateSpline_init_def
  resolve_ext_def extrap_modes_def fixed_native1_def fit4_def reset_class_def set_class_def
  as_data_def py_upto_def py_slice_def py_index_def new_object_def world0_def log_call_def warn_def
  spline_call_def nd_size_def array1_def empty_array_def cubic_object_def padded_knots_def
  np_sub_def py_first_def py_last_def Let_def

subsection \<open>Extrapolation mode resolution\<close>

lemma extrap_modes_int: "extrap_modes (IntKey i) = (if i \<in> {0, 1, 2, 3} then Some i else None)"
  by (simp add: extrap_modes_def)

lemma extrap_modes_str:
  "extrap_modes (StrKey s) =
     (if s = ''extrapolate'' then Some 0 else if s = ''zeros'' then Some 1
      else if s = ''raise'' then Some 2 else if s = ''const'' then Some 3 else None)"
  by (simp add: extrap_modes_def)

lemma resolve_ext_None:
  "extrap_modes key = None \<Longrightarrow>
   resolve_ext key = Inl (ValueError (''Unknown extrapolation mode '' @ str_key key @ ''.''))"
  by (simp add: resolve_ext_def)

lemma resolve_ext_Some: "extrap_modes key = Some c \<Longrightarrow> resolve_ext key = Inr c"
  by (simp add: resolve_ext_def)

lemma reset_class_ext: "reset_class self wd = (r, self', wd') \<Longrightarrow> obj_ext self' = obj_ext self"
  by (auto simp: reset_class_def set_class_def Let_def split: option.splits if_splits)

lemma U_init_ok:
  "UnivariateSpline_init lib self x y w bbox k s ext cf wd = (Inr u, self', wd') \<Longrightarrow>
   obj_ext self' = extrap_modes ext \<and> extrap_modes ext \<noteq> None"
  unfolding UnivariateSpline_init_def
  by (auto simp: resolve_ext_def Let_def split: option.splits sum.splits prod.splits if_splits dest!: reset_class_ext)

lemma I_init_ok:
  "InterpolatedUnivariateSpline_init lib self x y w bbox k ext cf wd = (Inr u, self', wd') \<Longrightarrow>
   obj_ext self' = extrap_modes ext \<and> extrap_modes ext \<noteq> None"
  unfolding InterpolatedUnivariateSpline_init_def
  by (auto simp: resolve_ext_def Let_def split: option.splits sum.splits prod.splits if_splits)

lemma L_init_ok:
  "LSQUnivariateSpline_init lib self x y t w bbox k ext cf wd = (Inr u, self', wd') \<Longrightarrow>
   obj_ext self' = extrap_modes ext \<and> extrap_modes ext \<noteq> None"
  unfolding LSQUnivariateSpline_init_def
  by (auto simp: resolve_ext_def Let_def split: option.splits sum.splits prod.splits if_splits)

text \<open>
  C4, as the code has it. The table \<open>_extrap_modes\<close> maps the integers 0 to 3 and the
  strings \<open>extrapolate\<close>, \<open>zeros\<close>, \<open>raise\<close>, \<open>const\<close> to the codes 0 to 3 and holds no
  other key. \<open>UnivariateSpline\<close> raises \<open>ValueError\<close> on a key outside the table and
  leaves the object and the world as they were; each of the three constructors, when it
  returns, has stored the code the table gives, so none returns on a key outside the
  table. An evaluation on a non-empty input with an \<open>ext\<close> override raises
  \<open>ValueError\<close> on a key outside the table and otherwise hands the table's code to
  \<open>splev\<close>. On an empty input the override is not looked up: the call returns the empty
  array whatever the key is.
\<close>

theorem extrap_mode_resolution:
  "(extrap_modes (IntKey i) = (if i \<in> {0, 1, 2, 3} then Some i else None)) \<and>
   (extrap_modes (StrKey s) =
      (if s = ''extrapolate'' then Some 0 else if s = ''zeros'' then Some 1
       else if s = ''raise'' then Some 2 else if s = ''const'' then Some 3 else None)) \<and>
   (extrap_modes bad = None \<longrightarrow>
      UnivariateSpline_init lib self x y w bbox k sf bad cf wd =
        (Inl (ValueError (''Unknown extrapolation mode '' @ str_key bad @ ''.'')), self, wd)) \<and>
   (fst (UnivariateSpline_init lib self x y w bbox k sf key cf wd) = Inr () \<longrightarrow>
      extrap_modes key \<noteq> None \<and>
      obj_ext (fst (snd (UnivariateSpline_init lib self x y w bbox k sf key cf wd))) =
        extrap_modes key) \<and>
   (fst (InterpolatedUnivariateSpline_init lib self x y w bbox k key cf wd) = Inr () \<longrightarrow>
      extrap_modes key \<noteq> None \<and>
      obj_ext (fst (snd (InterpolatedUnivariateSpline_init lib self x y w bbox k key cf wd))) =
        extrap_modes key) \<and>
   (fst (LSQUnivariateSpline_init lib self x y t w bbox k key cf wd) = Inr () \<longrightarrow>
      extrap_modes key \<noteq> None \<and>
      obj_ext (fst (snd (LSQUnivariateSpline_init lib self x y t w bbox k key cf wd))) =
        extrap_modes key) \<and>
   (nd_size xs \<noteq> 0 \<and> extrap_modes bad = None \<longrightarrow>
      spline_call lib obj xs nu (Some bad) wd =
        (Inl (ValueError (''Unknown extrapolation mode '' @ str_key bad @ ''.'')), obj, wd)) \<and>
   (nd_size xs \<noteq> 0 \<and> extrap_modes key = Some code \<and> obj_eval_args obj = Some tck \<longrightarrow>
      spline_call lib obj xs nu (Some key) wd =
        (splev lib xs tck nu code, obj, log_call Splev wd)) \<and>
   (nd_size xs0 = 0 \<longrightarrow>
      spline_call lib obj xs0 nu (Some bad) wd = (Inr empty_array, obj, wd))"
proof -
  have u: "fst (UnivariateSpline_init lib self x y w bbox k sf key cf wd) = Inr () \<longrightarrow>
      extrap_modes key \<noteq> None \<and>
      obj_ext (fst (snd (UnivariateSpline_init lib self x y w bbox k sf key cf wd))) =
        extrap_modes key"
    using U_init_ok [of lib self x y w bbox k sf key cf wd]
    by (cases "UnivariateSpline_init lib self x y w bbox k sf key cf wd") auto
  have i: "fst (InterpolatedUnivariateSpline_init lib self x y w bbox k key cf wd) = Inr () \<longrightarrow>
      extrap_modes key \<noteq> None \<and>
      obj_ext (fst (snd (InterpolatedUnivariateSpline_init lib self x y w bbox k key cf wd))) =
        extrap_modes key"
    using I_init_ok [of lib self x y w bbox k key cf wd]
    by (cases "InterpolatedUnivariateSpline_init lib self x y w bbox k key cf wd") auto
  have l: "fst (LSQUnivariateSpline_init lib self x y t w bbox k key cf wd) = Inr () \<longrightarrow>
      extrap_modes key \<noteq> None \<and>
      obj_ext (fst (snd (LSQUnivariateSpline_init lib self x y t w bbox k key cf wd))) =
        extrap_modes key"
    using L_init_ok [of lib self x y t w bbox k key cf wd]
    by (cases "LSQUnivariateSpline_init lib self x y t w bbox k key cf wd") auto
  have b: "extrap_modes bad = None \<longrightarrow>
      UnivariateSpline_init lib self x y w bbox k sf bad cf wd =
        (Inl (ValueError (''Unknown extrapolation mode '' @ str_key bad @ ''.'')), self, wd)"
    by (simp add: UnivariateSpline_init_def resolve_ext_None)
  have c1: "nd_size xs \<noteq> 0 \<and> extrap_modes bad = None \<longrightarrow>
      spline_call lib obj xs nu (Some bad) wd =
        (Inl (ValueError (''Unknown extrapolation mode '' @ str_key bad @ ''.'')), obj, wd)"
    by (simp add: spline_call_def resolve_ext_None)
  have c2: "nd_size xs \<noteq> 0 \<and> extrap_modes key = Some code \<and> obj_eval_args obj = Some tck \<longrightarrow>
      spline_call lib obj xs nu (Some key) wd =
        (splev lib xs tck nu code, obj, log_call Splev wd)"
    by (simp add: spline_call_def resolve_ext_Some)
  have c3: "nd_size xs0 = 0 \<longrightarrow>
      spline_call lib obj xs0 nu (Some bad) wd = (Inr empty_array, obj, wd)"
    by (simp add: spline_call_def)
  show ?thesis
    using extrap_modes_int [of i] extrap_modes_str [of s] u i l b c1 c2 c3 by blast
qed

theorem extrap_mode_resolution_witness:
  "extrap_modes (StrKey ''bogus'') = None \<and>
   UnivariateSpline_init (fixed_native1 0 0) (new_object UnivariateSpline) [0, 1, 2, 3]
       [0, 1, 8, 27] None (None, None) 3 None (StrKey ''bogus'') False world0 =
     (Inl (ValueError ''Unknown extrapolation mode bogus.''), new_object UnivariateSpline, world0) \<and>
   fst (UnivariateSpline_init (fixed_native1 0 0) (new_object UnivariateSpline) [0, 1, 2, 3]
       [0, 1, 8, 27] None (None, None) 3 None (StrKey ''raise'') False world0) = Inr () \<and>
   obj_ext (fst (snd (UnivariateSpline_init (fixed_native1 0 0) (new_object UnivariateSpline)
       [0, 1, 2, 3] [0, 1, 8, 27] None (None, None) 3 None (StrKey ''raise'') False world0))) =
     Some 2 \<and>
   fst (InterpolatedUnivariateSpline_init (fixed_native1 0 0)
       (new_object InterpolatedUnivariateSpline) [0, 1, 2, 3] [0, 1, 8, 27] None (None, None) 3
       (StrKey ''raise'') False world0) = Inr () \<and>
   obj_ext (fst (snd (InterpolatedUnivariateSpline_init (fixed_native1 0 0)
       (new_object InterpolatedUnivariateSpline) [0, 1, 2, 3] [0, 1, 8, 27] None (None, None) 3
       (StrKey ''raise'') False world0))) = Some 2 \<and>
   fst (LSQUnivariateSpline_init (fixed_native1 0 0) (new_object LSQUnivariateSpline)
       [0, 1, 2, 3] [0, 1, 8, 27] [1, 2] None (None, None) 3 (StrKey ''raise'') False world0) =
     Inr () \<and>
   obj_ext (fst (snd (LSQUnivariateSpline_init (fixed_native1 0 0)
       (new_object LSQUnivariateSpline) [0, 1, 2, 3] [0, 1, 8, 27] [1, 2] None (None, None) 3
       (StrKey ''raise'') False world0))) = Some 2 \<and>
   nd_size (array1 [1, 2]) \<noteq> 0 \<and>
   spline_call (fixed_native1 0 0) cubic_object (array1 [1, 2]) 0 (Some (StrKey ''bogus''))
       world0 =
     (Inl (ValueError ''Unknown extrapolation mode bogus.''), cubic_object, world0) \<and>
   extrap_modes (StrKey ''raise'') = Some 2 \<and>
   spline_call (fixed_native1 0 0) cubic_object (array1 [1, 2]) 0 (Some (StrKey ''raise''))
       world0 =
     (Inr (array1 [1, 2]), cubic_object, log_call Splev world0) \<and>
   nd_size (array1 []) = 0 \<and>
   spline_call (fixed_native1 0 0) cubic_object (array1 []) 0 (Some (StrKey ''bogus'')) world0 =
     (Inr empty_array, cubic_object, world0)"
  using extrap_mode_resolution [where bad = "StrKey ''bogus''" and key = "StrKey ''raise''"
      and lib = "fixed_native1 0 0" and self = "new_object UnivariateSpline"
      and x = "[0, 1, 2, 3]" and y = "[0, 1, 8, 27]" and w = None and bbox = "(None, None)"
      and k = 3 and sf = None and cf = False and wd = world0 and xs = "array1 [1, 2]"
      and obj = cubic_object and nu = 0 and xs0 = "array1 []" and code = 2
      and tck = "([0, 0, 0, 0, 3, 3, 3, 3], [0, 0, 0, 27, 0, 0, 0, 0], 3)" and t = "[1, 2]"]
  by (simp add: eval_defs)

text \<open>
  C4 as stated fails on an empty input: with the override \<open>'bogus'\<close>, which is not a key
  of the table, the call returns \<open>array([])\<close> and raises nothing.
\<close>

theorem extrap_mode_on_empty_input:
  "extrap_modes (StrKey ''bogus'') = None \<and>
   spline_call (fixed_native1 0 0) cubic_object (array1 []) 0 (Some (StrKey ''bogus'')) world0 =
     (Inr empty_array, cubic_object, world0)"
  by (simp add: extrap_modes_def spline_call_def nd_size_def array1_def)

subsection \<open>Class re-tagging\<close>








subsection \<open>Roots\<close>

lemma py_upto_take: "0 \<le> m \<Longrightarrow> py_upto z m = take (nat m) z"
  by (auto simp: py_upto_def py_slice_def py_index_def min_def)

lemma roots_frame: "fst (snd (roots lib self wd)) = self"
  by (simp add: roots_def Let_def split: option.splits sum.splits prod.splits)

text \<open>
  C9. On a spline object of degree other than 3, \<open>roots\<close> raises \<open>NotImplementedError\<close>
  without a native call. On a cubic one it calls \<open>sproot\<close> on the stored knots and
  coefficients: a non-zero error code raises \<open>ValueError\<close>, the code 0 returns \<open>z[:m]\<close>,
  which for a count \<open>m \<ge> 0\<close> is the first \<open>m\<close> entries of \<open>z\<close>. The object is the
  same afterwards in every case.
\<close>

theorem roots_of_cubic_only:
  "(obj_data self = Some data \<and> d_k data \<noteq> 3 \<longrightarrow>
      roots lib self wd =
        (Inl (NotImplementedError ''finding roots unsupported for non-cubic splines''),
         self, wd)) \<and>
   (obj_data self = Some data \<and> d_k data = 3 \<and> obj_eval_args self = Some (t, c, k) \<and>
    sproot lib t c = Inr (z, m, ier) \<longrightarrow>
      roots lib self wd =
        (if ier = 0 then Inr (py_upto z m)
         else Inl (ValueError (''Error code returned by spalde: '' @ str_int ier)),
         self, log_call Sproot wd)) \<and>
   (0 \<le> m \<longrightarrow> py_upto z m = take (nat m) z) \<and>
   fst (snd (roots lib self wd)) = self"
  using py_upto_take [of m z] roots_frame [of lib self wd]
  by (simp add: roots_def Let_def)

theorem roots_of_cubic_only_witness:
  "roots (fixed_native1 0 0) (cubic_object\<lparr>obj_data := Some ((as_data (fit4 0 0))\<lparr>d_k := 2\<rparr>)\<rparr>)
       world0 =
     (Inl (NotImplementedError ''finding roots unsupported for non-cubic splines''),
      cubic_object\<lparr>obj_data := Some ((as_data (fit4 0 0))\<lparr>d_k := 2\<rparr>)\<rparr>, world0) \<and>
   roots (fixed_native1 0 0) cubic_object world0 =
     (Inr [0], cubic_object, log_call Sproot world0) \<and>
   roots (fixed_native1 0 1) cubic_object world0 =
     (Inl (ValueError ''Error code returned by spalde: 1''), cubic_object,
      log_call Sproot world0)"
  using roots_of_cubic_only [where lib = "fixed_native1 0 0" and wd = world0
      and self = "cubic_object\<lparr>obj_data := Some ((as_data (fit4 0 0))\<lparr>d_k := 2\<rparr>)\<rparr>"
      and data = "(as_data (fit4 0 0))\<lparr>d_k := 2\<rparr>"]
    roots_of_cubic_only [where lib = "fixed_native1 0 0" and wd = world0
      and self = cubic_object and data = "as_data (fit4 0 0)"
      and t = "[0, 0, 0, 0, 3, 3, 3, 3]" and c = "[0, 0, 0, 27, 0, 0, 0, 0]" and k = 3
      and z = "[0, 5, 7]" and m = 1 and ier = 0]
    roots_of_cubic_only [where lib = "fixed_native1 0 1" and wd = world0
      and self = cubic_object and data = "as_data (fit4 0 0)"
      and t = "[0, 0, 0, 0, 3, 3, 3, 3]" and c = "[0, 0, 0, 27, 0, 0, 0, 0]" and k = 3
      and z = "[0, 5, 7]" and m = 1 and ier = 1]
  by (simp add: cubic_object_def fixed_native1_def as_data_def fit4_def str_int_def
      digits.simps)

subsection \<open>What changes the stored fit\<close>

lemma reset_class_frame:
  "reset_class self wd = (r, self', wd') \<Longrightarrow>
   obj_data self' = obj_data self \<and> obj_ext self' = obj_ext self \<and> calls wd' = calls wd"
  by (auto simp: reset_class_def set_class_def Let_def warn_def split: option.splits if_splits)

lemma reset_nest_calls:
  "reset_nest lib data nest wd = (r, wd') \<Longrightarrow>
   (calls wd' = calls wd \<and> isl r) \<or>
   (calls wd' = calls wd @ [Fpcurf1] \<and> (\<exists>args. fpcurf1 lib args = r))"
  unfolding reset_nest_def
  by (auto simp: Let_def log_call_def split: sum.splits option.splits if_splits)

lemma ssf_refit:
  assumes "obj_data self = Some data" "d_s data \<noteq> Some (- 1)"
    and "set_smoothing_factor lib self s wd = (r, self', wd')"
  shows "(calls wd' = calls wd @ [Fpcurf1] \<or> calls wd' = calls wd @ [Fpcurf1, Fpcurf1]) \<and>
         obj_ext self' = obj_ext self \<and>
         (r = Inr () \<longrightarrow> (\<exists>args fit. fpcurf1 lib args = Inr fit \<and>
                                obj_data self' = Some (as_data fit)))"
proof (cases "fpcurf1 lib (data\<lparr>d_s := Some s\<rparr>)")
  case (Inl e)
  with assms show ?thesis
    by (auto simp: set_smoothing_factor_def Let_def log_call_def)
next
  case (Inr fit)
  show ?thesis
  proof (cases "c_ier fit = 1")
    case False
    obtain r1 s1 w1 where rc:
      "reset_class (self\<lparr>obj_data := Some (as_data fit)\<rparr>) (log_call Fpcurf1 wd) = (r1, s1, w1)"
      by (cases "reset_class (self\<lparr>obj_data := Some (as_data fit)\<rparr>) (log_call Fpcurf1 wd)")
    from reset_class_frame [OF rc] assms Inr False rc show ?thesis
      by (auto simp: set_smoothing_factor_def Let_def log_call_def)
  next
    case True
    obtain r2 w2 where rn: "reset_nest lib fit None (log_call Fpcurf1 wd) = (r2, w2)"
      by (cases "reset_nest lib fit None (log_call Fpcurf1 wd)")
    show ?thesis
    proof (cases r2)
      case (Inl e)
      with reset_nest_calls [OF rn] assms Inr True rn show ?thesis
        by (auto simp: set_smoothing_factor_def Let_def log_call_def)
    next
      case (Inr fit2)
      obtain r1 s1 w1 where rc:
        "reset_class (self\<lparr>obj_data := Some (as_data fit2)\<rparr>) w2 = (r1, s1, w1)"
        by (cases "reset_class (self\<lparr>obj_data := Some (as_data fit2)\<rparr>) w2")
      from reset_nest_calls [OF rn] reset_class_frame [OF rc] assms \<open>fpcurf1 lib _ = Inr fit\<close>
        True rn Inr rc
      show ?thesis
        by (auto simp: set_smoothing_factor_def Let_def log_call_def)
    qed
  qed
qed

lemma ssf_fixed_knots:
  "obj_data self = Some data \<Longrightarrow> d_s data = Some (- 1) \<Longrightarrow>
   set_smoothing_factor lib self s wd =
     (Inr (), self, warn ''smoothing factor unchanged forLSQ spline with fixed knots'' wd)"
  by (simp add: set_smoothing_factor_def)

lemma univariate_frame:
  "fst (snd (spline_call lib self xs nu ext wd)) = self"
  "fst (snd (get_knots self wd)) = self"
  "fst (snd (get_coeffs self wd)) = self"
  "fst (snd (get_residual self wd)) = self"
  "fst (snd (integral lib self a b wd)) = self"
  "fst (snd (derivatives lib self v wd)) = self"
  "fst (snd (derivative lib self n wd)) = self"
  "fst (snd (antiderivative lib self n wd)) = self"
  by (simp_all add: spline_call_def get_knots_def get_coeffs_def get_residual_def integral_def
      derivatives_def derivative_def antiderivative_def Let_def
      split: option.splits sum.splits prod.splits)

lemma bivariate_frame: "fst (snd (bivariate_call slib surf xa ya mth dx dy grid wd)) = surf"
  by (simp add: bivariate_call_def Let_def split: option.splits sum.splits prod.splits)

lemma sphere_frame: "fst (snd (sphere_call slib surf xa ya dx dy grid wd)) = surf"
  by (simp add: sphere_call_def bivariate_frame)

text \<open>
  C6, as the code has it. Evaluation, the getters, \<open>integral\<close>, \<open>derivatives\<close>, \<open>roots\<close>,
  \<open>derivative\<close> and \<open>antiderivative\<close>, and the bivariate and spherical evaluations leave
  the object exactly as it was. \<open>set_smoothing_factor\<close> on an object whose stored
  smoothing factor is -1 (a least-squares spline with fixed knots) only warns: no native
  call, the object unchanged. On any other object that holds fit data it calls
  \<open>fpcurf1\<close> once or twice, keeps \<open>ext\<close>, and when it returns the data stored on the
  object is a tuple \<open>fpcurf1\<close> returned.
\<close>

theorem stored_fit_only_changed_by_refit:
  "fst (snd (spline_call lib obj xs nu ext wd)) = obj \<and>
   fst (snd (get_knots obj wd)) = obj \<and>
   fst (snd (get_coeffs obj wd)) = obj \<and>
   fst (snd (get_residual obj wd)) = obj \<and>
   fst (snd (integral lib obj a b wd)) = obj \<and>
   fst (snd (derivatives lib obj v wd)) = obj \<and>
   fst (snd (roots lib obj wd)) = obj \<and>
   fst (snd (derivative lib obj n wd)) = obj \<and>
   fst (snd (antiderivative lib obj n wd)) = obj \<and>
   fst (snd (bivariate_call slib surf xa ya mth dx dy grid wd)) = surf \<and>
   fst (snd (ev slib surf xa ya dx dy wd)) = surf \<and>
   fst (snd (sphere_call slib surf xa ya dx dy grid wd)) = surf \<and>
   (obj_data fixed = Some fdata \<and> d_s fdata = Some (- 1) \<longrightarrow>
      set_smoothing_factor lib fixed s wd =
        (Inr (), fixed,
         warn ''smoothing factor unchanged forLSQ spline with fixed knots'' wd)) \<and>
   (obj_data self = Some data \<and> d_s data \<noteq> Some (- 1) \<longrightarrow>
      (calls (snd (snd (set_smoothing_factor lib self s wd))) = calls wd @ [Fpcurf1] \<or>
       calls (snd (snd (set_smoothing_factor lib self s wd))) =
         calls wd @ [Fpcurf1, Fpcurf1]) \<and>
      obj_ext (fst (snd (set_smoothing_factor lib self s wd))) = obj_ext self \<and>
      (fst (set_smoothing_factor lib self s wd) = Inr () \<longrightarrow>
         (\<exists>args fit. fpcurf1 lib args = Inr fit \<and>
            obj_data (fst (snd (set_smoothing_factor lib self s wd))) = Some (as_data fit))))"
proof -
  have refit: "obj_data self = Some data \<and> d_s data \<noteq> Some (- 1) \<longrightarrow>
      (calls (snd (snd (set_smoothing_factor lib self s wd))) = calls wd @ [Fpcurf1] \<or>
       calls (snd (snd (set_smoothing_factor lib self s wd))) =
         calls wd @ [Fpcurf1, Fpcurf1]) \<and>
      obj_ext (fst (snd (set_smoothing_factor lib self s wd))) = obj_ext self \<and>
      (fst (set_smoothing_factor lib self s wd) = Inr () \<longrightarrow>
         (\<exists>args fit. fpcurf1 lib args = Inr fit \<and>
            obj_data (fst (snd (set_smoothing_factor lib self s wd))) = Some (as_data fit)))"
    using ssf_refit [of self data lib s wd]
    by (cases "set_smoothing_factor lib self s wd") simp
  have fixed: "obj_data fixed = Some fdata \<and> d_s fdata = Some (- 1) \<longrightarrow>
      set_smoothing_factor lib fixed s wd =
        (Inr (), fixed,
         warn ''smoothing factor unchanged forLSQ spline with fixed knots'' wd)"
    by (simp add: ssf_fixed_knots)
  show ?thesis
    using refit fixed
    by (simp add: univariate_frame roots_frame bivariate_frame sphere_frame ev_def)
qed

theorem stored_fit_only_changed_by_refit_witness:
  "set_smoothing_factor (fixed_native1 0 2) fixed_knots_object (1 / 2) world0 =
     (Inr (), fixed_knots_object,
      warn ''smoothing factor unchanged forLSQ spline with fixed knots'' world0) \<and>
   calls (snd (snd (set_smoothing_factor (fixed_native1 0 2) cubic_object (1 / 2) world0))) =
     [Fpcurf1] \<and>
   obj_data (fst (snd (set_smoothing_factor (fixed_native1 0 2) cubic_object (1 / 2) world0))) =
     Some (as_data (fit4 2 0)) \<and>
   fst (snd (get_knots cubic_object world0)) = cubic_object"
  using stored_fit_only_changed_by_refit [where lib = "fixed_native1 0 2" and wd = world0
      and fixed = fixed_knots_object
      and fdata = "(as_data (fit4 0 (- 1)))\<lparr>d_fpint := None, d_nrdata := None\<rparr>"
      and self = cubic_object and data = "as_data (fit4 0 0)" and s = "1 / 2"
      and obj = cubic_object]
  by (simp add: eval_defs set_smoothing_factor_def fixed_knots_object_def)

text \<open>
  C6 as stated fails on a least-squares spline with fixed knots: \<open>set_smoothing_factor\<close>
  returns after the warning, without calling the solver and without replacing anything.
\<close>

theorem smoothing_factor_kept_on_fixed_knots:
  "set_smoothing_factor (fixed_native1 0 0) fixed_knots_object (1 / 2) world0 =
     (Inr (), fixed_knots_object,
      warn ''smoothing factor unchanged forLSQ spline with fixed knots'' world0) \<and>
   calls (warn ''smoothing factor unchanged forLSQ spline with fixed knots'' world0) = []"
  by (simp add: set_smoothing_factor_def fixed_knots_object_def as_data_def fit4_def warn_def
      world0_def)

subsection \<open>How often the solver is called\<close>

lemma solver_calls_simps:
  "solver_calls (log_call c wd) = solver_calls wd + (if is_solver c then 1 else 0)"
  "solver_calls (warn m wd) = solver_calls wd"
  by (simp_all add: solver_calls_def log_call_def warn_def)

lemma reset_class_solver_calls:
  "solver_calls (snd (snd (reset_class self wd))) = solver_calls wd"
  by (simp add: reset_class_def Let_def solver_calls_simps split: option.splits)

lemma reset_nest_solver_calls:
  "solver_calls (snd (reset_nest lib data nest wd)) \<le> solver_calls wd + 1"
  unfolding reset_nest_def
  by (simp add: Let_def solver_calls_simps split: sum.splits option.splits)

lemma reset_nest_default:
  "0 \<le> int (length (c_x data)) + c_k data + 1 \<Longrightarrow>
   solver_calls (snd (reset_nest lib data None wd)) = solver_calls wd + 1"
  unfolding reset_nest_def
  by (simp add: Let_def solver_calls_simps np_resize_def)

lemma U_init_solver_calls:
  "solver_calls (snd (snd (UnivariateSpline_init lib new x y w bbox k sf key cf wd))) \<le>
     solver_calls wd + 2 \<and>
   (solver_calls (snd (snd (UnivariateSpline_init lib new x y w bbox k sf key cf wd))) =
      solver_calls wd + 2 \<longrightarrow>
    (\<exists>d. fpcurf0 lib x y k w (fst bbox) (snd bbox) sf = Inr d \<and> c_ier d = 1))"
proof (cases "resolve_ext key")
  case (Inl e)
  then show ?thesis by (simp add: UnivariateSpline_init_def)
next
  case (Inr code)
  show ?thesis
  proof (cases "fpcurf0 lib x y k w (fst bbox) (snd bbox) sf")
    case (Inl e)
    with Inr show ?thesis
      by (simp add: UnivariateSpline_init_def Let_def solver_calls_simps)
  next
    case fit: (Inr d)
    show ?thesis
    proof (cases "c_ier d = 1")
      case False
      with Inr fit show ?thesis
        by (simp add: UnivariateSpline_init_def Let_def solver_calls_simps
            reset_class_solver_calls)
    next
      case True
      with Inr fit reset_nest_solver_calls [of lib d None "log_call Fpcurf0 wd"] show ?thesis
        by (cases "reset_nest lib d None (log_call Fpcurf0 wd)")
          (auto simp: UnivariateSpline_init_def Let_def solver_calls_simps
            reset_class_solver_calls split: sum.splits)
    qed
  qed
qed

lemma U_init_retry:
  assumes "extrap_modes key \<noteq> None"
    and "fpcurf0 lib x y k w (fst bbox) (snd bbox) sf = Inr d" and "c_ier d = 1"
    and "0 \<le> int (length (c_x d)) + c_k d + 1"
  shows "solver_calls (snd (snd (UnivariateSpline_init lib new x y w bbox k sf key cf wd))) =
     solver_calls wd + 2"
proof -
  from assms(1) obtain code where "resolve_ext key = Inr code"
    by (auto simp: resolve_ext_def)
  with assms reset_nest_default [of d lib "log_call Fpcurf0 wd"] show ?thesis
    by (cases "reset_nest lib d None (log_call Fpcurf0 wd)")
      (auto simp: UnivariateSpline_init_def Let_def solver_calls_simps
        reset_class_solver_calls split: sum.splits)
qed

lemma ssf_solver_calls:
  "solver_calls (snd (snd (set_smoothing_factor lib self s wd))) \<le> solver_calls wd + 2 \<and>
   (solver_calls (snd (snd (set_smoothing_factor lib self s wd))) = solver_calls wd + 2 \<longrightarrow>
    (\<exists>data d. obj_data self = Some data \<and> fpcurf1 lib (data\<lparr>d_s := Some s\<rparr>) = Inr d \<and>
       c_ier d = 1))"
proof (cases "obj_data self")
  case None
  then show ?thesis by (simp add: set_smoothing_factor_def)
next
  case (Some data)
  show ?thesis
  proof (cases "d_s data = Some (- 1)")
    case True
    with Some show ?thesis by (simp add: set_smoothing_factor_def solver_calls_simps)
  next
    case ns: False
    show ?thesis
    proof (cases "fpcurf1 lib (data\<lparr>d_s := Some s\<rparr>)")
      case (Inl e)
      with Some ns show ?thesis
        by (simp add: set_smoothing_factor_def Let_def solver_calls_simps)
    next
      case fit: (Inr d)
      show ?thesis
      proof (cases "c_ier d = 1")
        case False
        with Some ns fit show ?thesis
          by (simp add: set_smoothing_factor_def Let_def solver_calls_simps
              reset_class_solver_calls)
      next
        case True
        with Some ns fit reset_nest_solver_calls [of lib d None "log_call Fpcurf1 wd"]
        show ?thesis
          by (cases "reset_nest lib d None (log_call Fpcurf1 wd)")
            (auto simp: set_smoothing_factor_def Let_def solver_calls_simps
              reset_class_solver_calls split: sum.splits)
      qed
    qed
  qed
qed

lemma I_init_solver_calls:
  "solver_calls (snd (snd (InterpolatedUnivariateSpline_init lib new x y w bbox k key cf wd)))
     \<le> solver_calls wd + 1"
proof (cases "fpcurf0 lib x y k w (fst bbox) (snd bbox) (Some 0)")
  case (Inl e)
  then show ?thesis
    by (simp add: InterpolatedUnivariateSpline_init_def Let_def solver_calls_simps)
next
  case (Inr d)
  with reset_class_solver_calls [of "new\<lparr>obj_data := Some (as_data d)\<rparr>" "log_call Fpcurf0 wd"]
  show ?thesis
    by (cases "reset_class (new\<lparr>obj_data := Some (as_data d)\<rparr>) (log_call Fpcurf0 wd)")
      (auto simp: InterpolatedUnivariateSpline_init_def Let_def solver_calls_simps
        split: sum.splits)
qed

lemma L_init_solver_calls:
  "solver_calls (snd (snd (LSQUnivariateSpline_init lib new x y t w bbox k key cf wd)))
     \<le> solver_calls wd + 1"
proof -
  have rc: "solver_calls (snd (snd (case reset_class obj wd1 of
              (Inl e, self, wd) \<Rightarrow> (Inl e, self, wd)
            | (Inr u, self, wd) \<Rightarrow>
                (case resolve_ext key of
                   Inl e \<Rightarrow> (Inl e, self, wd)
                 | Inr code \<Rightarrow> (Inr (), self\<lparr>obj_ext := Some code\<rparr>, wd))))) =
         solver_calls wd1" for obj wd1
    using reset_class_solver_calls [of obj wd1]
    by (cases "reset_class obj wd1") (auto split: sum.splits)
  show ?thesis
    unfolding LSQUnivariateSpline_init_def Let_def
    by (simp add: rc solver_calls_simps split: sum.splits option.splits)
qed

lemma S_init_solver_calls:
  "solver_calls (snd (snd (SmoothBivariateSpline_init slib surf xa ya za wa bb kx ky sa eps wd)))
     \<le> solver_calls wd + 2 \<and>
   (solver_calls (snd (snd (SmoothBivariateSpline_init slib surf xa ya za wa bb kx ky sa eps
      wd))) = solver_calls wd + 2 \<longrightarrow>
    (\<exists>r. surfit_smth slib xa ya za wa bb kx ky sa eps 1 = Inr r \<and> f_ier r > 10))"
  unfolding SmoothBivariateSpline_init_def Let_def
  by (simp add: solver_calls_simps split: sum.splits)

lemma R_init_solver_calls:
  "solver_calls (snd (snd (RectBivariateSpline_init slib surf xg yg zg bb kx ky s wd)))
     \<le> solver_calls wd + 1"
  unfolding RectBivariateSpline_init_def Let_def
  by (simp add: solver_calls_simps split: sum.splits)

text \<open>
  C2, as the code has it. \<open>UnivariateSpline\<close>, \<open>set_smoothing_factor\<close> and
  \<open>SmoothBivariateSpline\<close> call the solver at most twice in one operation, and twice only
  when the first call returned status 1 (univariate, \<open>_reset_nest\<close>) or a status above
  10 (\<open>SmoothBivariateSpline\<close>, re-run with \<open>lwrk2=ier\<close>); a \<open>UnivariateSpline\<close> whose
  first fit returns status 1 does call it twice. \<open>InterpolatedUnivariateSpline\<close>,
  \<open>LSQUnivariateSpline\<close> and \<open>RectBivariateSpline\<close> call it at most once.
\<close>

theorem solver_called_at_most_twice:
  "(solver_calls (snd (snd (UnivariateSpline_init lib new x y w bbox k sf key cf wd))) \<le>
      solver_calls wd + 2 \<and>
    (solver_calls (snd (snd (UnivariateSpline_init lib new x y w bbox k sf key cf wd))) =
       solver_calls wd + 2 \<longrightarrow>
     (\<exists>d. fpcurf0 lib x y k w (fst bbox) (snd bbox) sf = Inr d \<and> c_ier d = 1))) \<and>
   (extrap_modes key \<noteq> None \<and> fpcurf0 lib x y k w (fst bbox) (snd bbox) sf = Inr fit \<and>
    c_ier fit = 1 \<and> 0 \<le> int (length (c_x fit)) + c_k fit + 1 \<longrightarrow>
      solver_calls (snd (snd (UnivariateSpline_init lib new x y w bbox k sf key cf wd))) =
        solver_calls wd + 2) \<and>
   (solver_calls (snd (snd (set_smoothing_factor lib self s wd))) \<le> solver_calls wd + 2 \<and>
    (solver_calls (snd (snd (set_smoothing_factor lib self s wd))) = solver_calls wd + 2 \<longrightarrow>
     (\<exists>data d. obj_data self = Some data \<and> fpcurf1 lib (data\<lparr>d_s := Some s\<rparr>) = Inr d \<and>
        c_ier d = 1))) \<and>
   (solver_calls (snd (snd (SmoothBivariateSpline_init slib surf xa ya za wa bb kx ky sa eps
       wd))) \<le> solver_calls wd + 2 \<and>
    (solver_calls (snd (snd (SmoothBivariateSpline_init slib surf xa ya za wa bb kx ky sa eps
       wd))) = solver_calls wd + 2 \<longrightarrow>
     (\<exists>r. surfit_smth slib xa ya za wa bb kx ky sa eps 1 = Inr r \<and> f_ier r > 10))) \<and>
   solver_calls (snd (snd (InterpolatedUnivariateSpline_init lib new x y w bbox k key cf wd)))
     \<le> solver_calls wd + 1 \<and>
   solver_calls (snd (snd (LSQUnivariateSpline_init lib new x y t w bbox k key cf wd)))
     \<le> solver_calls wd + 1 \<and>
   solver_calls (snd (snd (RectBivariateSpline_init slib surf xg yg zg bb kx ky sg wd)))
     \<le> solver_calls wd + 1"
  using U_init_solver_calls [of lib new x y w bbox k sf key cf wd]
    U_init_retry [of key lib x y k w bbox sf fit new cf wd]
    ssf_solver_calls [of lib self s wd]
    S_init_solver_calls [of slib surf xa ya za wa bb kx ky sa eps wd]
    I_init_solver_calls [of lib new x y w bbox k key cf wd]
    L_init_solver_calls [of lib new x y t w bbox k key cf wd]
    R_init_solver_calls [of slib surf xg yg zg bb kx ky sg wd]
  by blast

lemma solver_calls_world0: "solver_calls world0 = 0"
  by (simp add: solver_calls_def world0_def)

theorem solver_called_at_most_twice_witness:
  "solver_calls (snd (snd (UnivariateSpline_init (fixed_native1 1 0)
      (new_object UnivariateSpline) [0, 1, 2, 3] [0, 1, 8, 27] None (None, None) 3 None
      (IntKey 0) False world0))) = 2 \<and>
   solver_calls (snd (snd (SmoothBivariateSpline_init (fixed_native2 11 11) new_bspline
      [0, 1] [0, 1] [0, 1] None (None, None, None, None) 3 3 None None world0))) \<le> 2"
proof -
  note inst = solver_called_at_most_twice [where lib = "fixed_native1 1 0"
      and new = "new_object UnivariateSpline" and x = "[0, 1, 2, 3]" and y = "[0, 1, 8, 27]"
      and w = None and bbox = "(None, None)" and k = 3 and sf = None and key = "IntKey 0"
      and cf = False and wd = world0 and fit = "fit4 1 0"
      and slib = "fixed_native2 11 11" and surf = new_bspline
      and xa = "[0, 1]" and ya = "[0, 1]" and za = "[0, 1]" and wa = None
      and bb = "(None, None, None, None)" and kx = 3 and ky = 3 and sa = None and eps = None]
  have hyp: "extrap_modes (IntKey 0) \<noteq> None \<and>
      fpcurf0 (fixed_native1 1 0) [0, 1, 2, 3] [0, 1, 8, 27] 3 None (fst (None, None))
        (snd (None, None)) None = Inr (fit4 1 0) \<and>
      c_ier (fit4 1 0) = 1 \<and> 0 \<le> int (length (c_x (fit4 1 0))) + c_k (fit4 1 0) + 1"
    by (simp add: fixed_native1_def fit4_def extrap_modes_def)
  from inst hyp have
    "solver_calls (snd (snd (UnivariateSpline_init (fixed_native1 1 0)
        (new_object UnivariateSpline) [0, 1, 2, 3] [0, 1, 8, 27] None (None, None) 3 None
        (IntKey 0) False world0))) = solver_calls world0 + 2 \<and>
     solver_calls (snd (snd (SmoothBivariateSpline_init (fixed_native2 11 11) new_bspline
        [0, 1] [0, 1] [0, 1] None (None, None, None, None) 3 3 None None world0))) \<le>
       solver_calls world0 + 2"
    by blast
  then show ?thesis
    by (simp add: solver_calls_world0)
qed

text \<open>
  C2 as stated fails when \<open>fpcurf0\<close> returns status 1: the constructor goes on to
  \<open>_reset_nest\<close>, which calls \<open>fpcurf1\<close> with the arrays resized to \<open>m+k+1\<close>.
\<close>

theorem solver_invoked_again_on_status_1:
  "calls (snd (snd (UnivariateSpline_init (fixed_native1 1 0)
      (new_object UnivariateSpline) [0, 1, 2, 3] [0, 1, 8, 27] None (None, None) 3 None
      (IntKey 0) False world0))) = [Fpcurf0, Fpcurf1] \<and>
   solver_calls (snd (snd (UnivariateSpline_init (fixed_native1 1 0)
      (new_object UnivariateSpline) [0, 1, 2, 3] [0, 1, 8, 27] None (None, None) 3 None
      (IntKey 0) False world0))) = 2"
  by (simp add: eval_defs reset_nest_def np_resize_def solver_calls_def)

subsection \<open>Validation and the solver\<close>

text \<open>
  C3 at \<open>InterpolatedUnivariateSpline([0,1,2,3], [0,1,8,27], ext='bogus')\<close> and at
  \<open>LSQUnivariateSpline([0,1,2,3], [0,1,8,27], [1,2], ext='bogus')\<close>: the unknown mode is
  only rejected after the fit. The solver has been called and its result is stored on
  the object when \<open>ValueError\<close> is raised. \<open>UnivariateSpline\<close> on the same arguments
  rejects the mode first: no native call, nothing stored.
\<close>

theorem unknown_ext_checked_after_fit:
  "fst (InterpolatedUnivariateSpline_init (fixed_native1 0 0)
      (new_object InterpolatedUnivariateSpline) [0, 1, 2, 3] [0, 1, 8, 27] None (None, None) 3
      (StrKey ''bogus'') False world0) =
     Inl (ValueError ''Unknown extrapolation mode bogus.'') \<and>
   calls (snd (snd (InterpolatedUnivariateSpline_init (fixed_native1 0 0)
      (new_object InterpolatedUnivariateSpline) [0, 1, 2, 3] [0, 1, 8, 27] None (None, None) 3
      (StrKey ''bogus'') False world0))) = [Fpcurf0] \<and>
   obj_data (fst (snd (InterpolatedUnivariateSpline_init (fixed_native1 0 0)
      (new_object InterpolatedUnivariateSpline) [0, 1, 2, 3] [0, 1, 8, 27] None (None, None) 3
      (StrKey ''bogus'') False world0))) = Some (as_data (fit4 0 0)) \<and>
   fst (LSQUnivariateSpline_init (fixed_native1 0 0)
      (new_object LSQUnivariateSpline) [0, 1, 2, 3] [0, 1, 8, 27] [1, 2] None (None, None) 3
      (StrKey ''bogus'') False world0) =
     Inl (ValueError ''Unknown extrapolation mode bogus.'') \<and>
   calls (snd (snd (LSQUnivariateSpline_init (fixed_native1 0 0)
      (new_object LSQUnivariateSpline) [0, 1, 2, 3] [0, 1, 8, 27] [1, 2] None (None, None) 3
      (StrKey ''bogus'') False world0))) = [Fpchec, Fpcurfm1] \<and>
   obj_data (fst (snd (LSQUnivariateSpline_init (fixed_native1 0 0)
      (new_object LSQUnivariateSpline) [0, 1, 2, 3] [0, 1, 8, 27] [1, 2] None (None, None) 3
      (StrKey ''bogus'') False world0))) \<noteq> None \<and>
   UnivariateSpline_init (fixed_native1 0 0) (new_object UnivariateSpline) [0, 1, 2, 3]
      [0, 1, 8, 27] None (None, None) 3 None (StrKey ''bogus'') False world0 =
     (Inl (ValueError ''Unknown extrapolation mode bogus.''), new_object UnivariateSpline,
      world0)"
  by (simp add: eval_defs)

text \<open>The same for any library whose \<open>fpcurf0\<close> returns a fit, and the knot check of
  \<open>LSQUnivariateSpline\<close>, which does come before every native call.\<close>

lemma unknown_ext_after_fit:
  "extrap_modes key = None \<Longrightarrow> \<not> (cf \<and> w = None) \<Longrightarrow>
   fpcurf0 lib x y k w (fst bbox) (snd bbox) (Some 0) = Inr fit \<Longrightarrow>
   fst (InterpolatedUnivariateSpline_init lib new x y w bbox k key cf wd) =
     Inl (ValueError (''Unknown extrapolation mode '' @ str_key key @ ''.'')) \<and>
   calls (snd (snd (InterpolatedUnivariateSpline_init lib new x y w bbox k key cf wd))) =
     calls wd @ [Fpcurf0] \<and>
   obj_data (fst (snd (InterpolatedUnivariateSpline_init lib new x y w bbox k key cf wd))) =
     Some (as_data fit)"
  by (auto simp: InterpolatedUnivariateSpline_init_def Let_def resolve_ext_def reset_class_def
      set_class_def log_call_def warn_def split: option.splits)

lemma knots_checked_before_solver:
  "np_sub (py_slice (padded_knots xb xe k t) (k + 1) (int (length (padded_knots xb xe k t)) - k))
      (py_slice (padded_knots xb xe k t) k (int (length (padded_knots xb xe k t)) - k - 1)) =
     Inr d \<Longrightarrow>
   \<not> list_all (\<lambda>v. v > 0) d \<Longrightarrow>
   LSQUnivariateSpline_init lib new x y t w (Some xb, Some xe) k key False wd =
     (Inl (ValueError ''Interior knots t must satisfy Schoenberg-Whitney conditions''),
      new, wd)"
  by (simp add: LSQUnivariateSpline_init_def Let_def)

subsection \<open>Status codes\<close>

lemma rect_cases:
  "(calls (snd (snd (RectBivariateSpline_init slib surf xg yg zg bb kx ky sg wd))) = calls wd \<and>
    warnings (snd (snd (RectBivariateSpline_init slib surf xg yg zg bb kx ky sg wd))) =
      warnings wd \<and>
    fst (snd (RectBivariateSpline_init slib surf xg yg zg bb kx ky sg wd)) = surf \<and>
    isl (fst (RectBivariateSpline_init slib surf xg yg zg bb kx ky sg wd))) \<or>
   (calls (snd (snd (RectBivariateSpline_init slib surf xg yg zg bb kx ky sg wd))) =
      calls wd @ [Regrid_smth] \<and>
    warnings (snd (snd (RectBivariateSpline_init slib surf xg yg zg bb kx ky sg wd))) =
      warnings wd \<and>
    (case regrid_smth slib (elems xg) (elems yg) (elems zg) bb kx ky sg of
       Inl e \<Rightarrow>
         fst (RectBivariateSpline_init slib surf xg yg zg bb kx ky sg wd) = Inl e \<and>
         fst (snd (RectBivariateSpline_init slib surf xg yg zg bb kx ky sg wd)) = surf
     | Inr r \<Rightarrow>
         if f_ier r \<in> {0, - 1, - 2}
         then fst (RectBivariateSpline_init slib surf xg yg zg bb kx ky sg wd) = Inr () \<and>
              b_fp (fst (snd (RectBivariateSpline_init slib surf xg yg zg bb kx ky sg wd))) =
                Some (f_fp r) \<and>
              b_tck (fst (snd (RectBivariateSpline_init slib surf xg yg zg bb kx ky sg wd))) =
                Some (py_upto (f_tx r) (f_nx r), py_upto (f_ty r) (f_ny r),
                      py_upto (f_c r) ((f_nx r - kx - 1) * (f_ny r - ky - 1)))
         else fst (RectBivariateSpline_init slib surf xg yg zg bb kx ky sg wd) =
                Inl (ValueError (surfit_message (f_ier r))) \<and>
              fst (snd (RectBivariateSpline_init slib surf xg yg zg bb kx ky sg wd)) = surf))"
  unfolding RectBivariateSpline_init_def Let_def
  by (simp add: log_call_def split: sum.splits)

lemma reset_class_silent:
  "obj_data self = Some data \<Longrightarrow> d_ier data \<in> {Some 0, Some (- 1), Some (- 2)} \<Longrightarrow>
   fst (reset_class self wd) = Inr () \<and> snd (snd (reset_class self wd)) = wd \<and>
   obj_data (fst (snd (reset_class self wd))) = Some data"
  by (auto simp: reset_class_def set_class_def Let_def)

lemma reset_class_warns:
  "obj_data self = Some data \<Longrightarrow> d_ier data = Some i \<Longrightarrow> i \<notin> {0, - 1, - 2} \<Longrightarrow>
   fst (reset_class self wd) = Inr () \<and>
   snd (snd (reset_class self wd)) =
     warn (case curfit_messages i of Some m \<Rightarrow> m | None \<Rightarrow> ''ier='' @ str_int i) wd \<and>
   obj_data (fst (snd (reset_class self wd))) = Some data"
  by (auto simp: reset_class_def set_class_def Let_def)

lemma smooth_result:
  assumes "(surfit_smth slib xa ya za wa bb kx ky sa eps 1 = Inr r \<and> f_ier r \<le> 10) \<or>
     (\<exists>r1. surfit_smth slib xa ya za wa bb kx ky sa eps 1 = Inr r1 \<and> f_ier r1 > 10 \<and>
        surfit_smth slib xa ya za wa bb kx ky sa eps (f_ier r1) = Inr r)"
  shows "fst (SmoothBivariateSpline_init slib surf xa ya za wa bb kx ky sa eps wd) = Inr () \<and>
     b_fp (fst (snd (SmoothBivariateSpline_init slib surf xa ya za wa bb kx ky sa eps wd))) =
       Some (f_fp r) \<and>
     b_tck (fst (snd (SmoothBivariateSpline_init slib surf xa ya za wa bb kx ky sa eps wd))) =
       Some (py_upto (f_tx r) (f_nx r), py_upto (f_ty r) (f_ny r),
             py_upto (f_c r) ((f_nx r - kx - 1) * (f_ny r - ky - 1))) \<and>
     warnings (snd (snd (SmoothBivariateSpline_init slib surf xa ya za wa bb kx ky sa eps wd))) =
       (if f_ier r \<in> {0, - 1, - 2} then warnings wd
        else warnings wd @ [surfit_message (f_ier r)])"
  using assms unfolding SmoothBivariateSpline_init_def Let_def
  by (auto simp: log_call_def warn_def)

text \<open>
  C1, as the code has it, for the univariate fit (\<open>_reset_class\<close>),
  \<open>SmoothBivariateSpline\<close> and \<open>RectBivariateSpline\<close>. The status codes 0, -1 and -2 are
  accepted without a warning and the result is stored. On any other status code except 10
  the univariate fit and \<open>SmoothBivariateSpline\<close> (after its re-run, if any) issue one
  warning, the message of the table or \<open>ier=<code>\<close>, and keep the result on the object.
  \<open>RectBivariateSpline\<close> never warns: once it has reached the solver, every status code
  other than 0, -1, -2 raises \<open>ValueError\<close> with that message and leaves the object as it
  was.
\<close>

theorem status_code_dispatch:
  "(obj_data self = Some data \<and> d_ier data \<in> {Some 0, Some (- 1), Some (- 2)} \<longrightarrow>
      fst (reset_class self wd) = Inr () \<and> snd (snd (reset_class self wd)) = wd \<and>
      obj_data (fst (snd (reset_class self wd))) = Some data) \<and>
   (obj_data self = Some data \<and> d_ier data = Some i \<and> i \<notin> {0, - 1, - 2} \<and> i \<noteq> 10 \<longrightarrow>
      fst (reset_class self wd) = Inr () \<and>
      snd (snd (reset_class self wd)) =
        warn (case curfit_messages i of Some m \<Rightarrow> m | None \<Rightarrow> ''ier='' @ str_int i) wd \<and>
      obj_data (fst (snd (reset_class self wd))) = Some data) \<and>
   ((surfit_smth slib xa ya za wa bb kx ky sa eps 1 = Inr r \<and> f_ier r \<le> 10 \<or>
     (\<exists>r1. surfit_smth slib xa ya za wa bb kx ky sa eps 1 = Inr r1 \<and> f_ier r1 > 10 \<and>
        surfit_smth slib xa ya za wa bb kx ky sa eps (f_ier r1) = Inr r)) \<and>
    f_ier r \<noteq> 10 \<longrightarrow>
      fst (SmoothBivariateSpline_init slib surf xa ya za wa bb kx ky sa eps wd) = Inr () \<and>
      b_fp (fst (snd (SmoothBivariateSpline_init slib surf xa ya za wa bb kx ky sa eps wd))) =
        Some (f_fp r) \<and>
      b_tck (fst (snd (SmoothBivariateSpline_init slib surf xa ya za wa bb kx ky sa eps wd))) =
        Some (py_upto (f_tx r) (f_nx r), py_upto (f_ty r) (f_ny r),
              py_upto (f_c r) ((f_nx r - kx - 1) * (f_ny r - ky - 1))) \<and>
      warnings (snd (snd (SmoothBivariateSpline_init slib surf xa ya za wa bb kx ky sa eps
          wd))) =
        (if f_ier r \<in> {0, - 1, - 2} then warnings wd
         else warnings wd @ [surfit_message (f_ier r)])) \<and>
   warnings (snd (snd (RectBivariateSpline_init slib surf xg yg zg bb kx ky sg wd))) =
     warnings wd \<and>
   (calls (snd (snd (RectBivariateSpline_init slib surf xg yg zg bb kx ky sg wd))) \<noteq> calls wd \<and>
    regrid_smth slib (elems xg) (elems yg) (elems zg) bb kx ky sg = Inr g \<longrightarrow>
      (if f_ier g \<in> {0, - 1, - 2}
       then fst (RectBivariateSpline_init slib surf xg yg zg bb kx ky sg wd) = Inr () \<and>
            b_fp (fst (snd (RectBivariateSpline_init slib surf xg yg zg bb kx ky sg wd))) =
              Some (f_fp g) \<and>
            b_tck (fst (snd (RectBivariateSpline_init slib surf xg yg zg bb kx ky sg wd))) =
              Some (py_upto (f_tx g) (f_nx g), py_upto (f_ty g) (f_ny g),
                    py_upto (f_c g) ((f_nx g - kx - 1) * (f_ny g - ky - 1)))
       else fst (RectBivariateSpline_init slib surf xg yg zg bb kx ky sg wd) =
              Inl (ValueError (surfit_message (f_ier g))) \<and>
            fst (snd (RectBivariateSpline_init slib surf xg yg zg bb kx ky sg wd)) = surf))"
proof -
  have rect: "warnings (snd (snd (RectBivariateSpline_init slib surf xg yg zg bb kx ky sg wd))) =
     warnings wd \<and>
   (calls (snd (snd (RectBivariateSpline_init slib surf xg yg zg bb kx ky sg wd))) \<noteq> calls wd \<and>
    regrid_smth slib (elems xg) (elems yg) (elems zg) bb kx ky sg = Inr g \<longrightarrow>
      (if f_ier g \<in> {0, - 1, - 2}
       then fst (RectBivariateSpline_init slib surf xg yg zg bb kx ky sg wd) = Inr () \<and>
            b_fp (fst (snd (RectBivariateSpline_init slib surf xg yg zg bb kx ky sg wd))) =
              Some (f_fp g) \<and>
            b_tck (fst (snd (RectBivariateSpline_init slib surf xg yg zg bb kx ky sg wd))) =
              Some (py_upto (f_tx g) (f_nx g), py_upto (f_ty g) (f_ny g),
                    py_upto (f_c g) ((f_nx g - kx - 1) * (f_ny g - ky - 1)))
       else fst (RectBivariateSpline_init slib surf xg yg zg bb kx ky sg wd) =
              Inl (ValueError (surfit_message (f_ier g))) \<and>
            fst (snd (RectBivariateSpline_init slib surf xg yg zg bb kx ky sg wd)) = surf))"
    using rect_cases [of slib surf xg yg zg bb kx ky sg wd] by auto
  show ?thesis
    using reset_class_silent [of self data wd] reset_class_warns [of self data i wd]
      smooth_result [of slib xa ya za wa bb kx ky sa eps r surf wd] rect
    by blast
qed

lemmas eval_defs2 =
  SmoothBivariateSpline_init_def RectBivariateSpline_init_def fixed_native2_def surf4_def
  new_bspline_def np_diff_def np_min_def np_max_def np_zeros_def array1_def
  surface_fit.defs surfit_result.defs
  py_upto_def py_slice_def py_index_def world0_def log_call_def warn_def Let_def

theorem status_code_dispatch_witness:
  "snd (snd (reset_class cubic_object world0)) = world0 \<and>
   warnings (snd (snd (reset_class (cubic_object\<lparr>obj_data := Some (as_data (fit4 7 0))\<rparr>)
      world0))) = [''ier=7''] \<and>
   obj_data (fst (snd (reset_class (cubic_object\<lparr>obj_data := Some (as_data (fit4 7 0))\<rparr>)
      world0))) = Some (as_data (fit4 7 0)) \<and>
   warnings (snd (snd (SmoothBivariateSpline_init (fixed_native2 0 0) new_bspline
      [0, 1] [0, 1] [0, 1] None (None, None, None, None) 3 3 None None world0))) = [] \<and>
   warnings (snd (snd (SmoothBivariateSpline_init (fixed_native2 7 0) new_bspline
      [0, 1] [0, 1] [0, 1] None (None, None, None, None) 3 3 None None world0))) =
     [''ier=7''] \<and>
   b_fp (fst (snd (SmoothBivariateSpline_init (fixed_native2 7 0) new_bspline
      [0, 1] [0, 1] [0, 1] None (None, None, None, None) 3 3 None None world0))) = Some 0 \<and>
   fst (RectBivariateSpline_init (fixed_native2 0 0) new_bspline (array1 [0, 1, 2, 3])
      (array1 [0, 1, 2, 3]) (np_zeros [4, 4]) (None, None, None, None) 3 3 0 world0) =
     Inr () \<and>
   RectBivariateSpline_init (fixed_native2 7 0) new_bspline (array1 [0, 1, 2, 3])
      (array1 [0, 1, 2, 3]) (np_zeros [4, 4]) (None, None, None, None) 3 3 0 world0 =
     (Inl (ValueError ''ier=7''), new_bspline, log_call Regrid_smth world0)"
  using status_code_dispatch [where self = cubic_object and data = "as_data (fit4 0 0)"
      and wd = world0 and slib = "fixed_native2 0 0" and surf = new_bspline
      and xa = "[0, 1]" and ya = "[0, 1]" and za = "[0, 1]" and wa = None
      and bb = "(None, None, None, None)" and kx = 3 and ky = 3 and sa = None and eps = None
      and r = "surface_fit.extend (surf4 0) (surfit_result.fields [])"
      and xg = "array1 [0, 1, 2, 3]" and yg = "array1 [0, 1, 2, 3]" and zg = "np_zeros [4, 4]"
      and sg = 0 and g = "surf4 0"]
    status_code_dispatch [where self = "cubic_object\<lparr>obj_data := Some (as_data (fit4 7 0))\<rparr>"
      and data = "as_data (fit4 7 0)" and i = 7
      and wd = world0 and slib = "fixed_native2 7 0" and surf = new_bspline
      and xa = "[0, 1]" and ya = "[0, 1]" and za = "[0, 1]" and wa = None
      and bb = "(None, None, None, None)" and kx = 3 and ky = 3 and sa = None and eps = None
      and r = "surface_fit.extend (surf4 7) (surfit_result.fields [])"
      and xg = "array1 [0, 1, 2, 3]" and yg = "array1 [0, 1, 2, 3]" and zg = "np_zeros [4, 4]"
      and sg = 0 and g = "surf4 7"]
  by (simp add: eval_defs eval_defs2 surfit_message_def surfit_messages_def curfit_messages_def
      str_int_def digits.simps)

text \<open>
  C1 as stated fails in \<open>RectBivariateSpline\<close>: the positive status code 1 raises
  \<open>ValueError\<close>, without a warning, and nothing is stored.
\<close>

theorem positive_status_raises_in_rect:
  "RectBivariateSpline_init (fixed_native2 1 0) new_bspline (array1 [0, 1, 2, 3])
      (array1 [0, 1, 2, 3]) (np_zeros [4, 4]) (None, None, None, None) 3 3 0 world0 =
     (Inl (ValueError (surfit_message 1)), new_bspline, log_call Regrid_smth world0) \<and>
   warnings (log_call Regrid_smth world0) = []"
  by (simp add: eval_defs2)

subsection \<open>Evaluation on an empty input\<close>









subsection \<open>Bounds of a spherical evaluation\<close>









subsection \<open>Knots and coefficients\<close>
















end
